theory Spec2Isabelle
  imports Main "HOL-Library.Sublist" "HOL-Library.AList"
begin

section \<open>The WordPress to Markdown exporter\<close>

text \<open>
  A shallow embedding of the exporter class \<^verbatim>\<open>WordPressExporter\<close> and of its plugins.
  JavaScript strings are modelled as \<^typ>\<open>string\<close>: a character is one code unit, limited
  to the range 0..255. Exceptions are values of the type \<open>error\<close> on the left of a sum.
  What the process does to the outside world is a trace of events. The network and the
  disk are asked together with the trace so far, so they may answer the same request
  differently at different times of a run.
  The libraries the exporter calls (global \<^verbatim>\<open>fetch\<close>, \<^verbatim>\<open>fs\<close>, jsdom, turndown, js-yaml,
  sanitize-filename, lang-detector) are not part of the repository: they are the fields
  of the record \<open>env\<close>, and every theorem holds for every \<open>env\<close>. Of js-yaml, the order in
  which the pairs of an object are written is modelled; how one pair is written is a
  field of \<open>env\<close>.
  The functions of the JavaScript language itself that the code relies on
  (\<^verbatim>\<open>String.prototype.replace\<close>, \<^verbatim>\<open>trim\<close>, \<^verbatim>\<open>split\<close>, \<^verbatim>\<open>indexOf\<close>, \<^verbatim>\<open>JSON.parse\<close>) and
  Node's \<^verbatim>\<open>path.join\<close> and \<^verbatim>\<open>path.relative\<close> on a POSIX system are modelled concretely.
\<close>

subsection \<open>Data model\<close>

datatype error = Error (message: string)

record response =
  status :: nat
  body :: string

text \<open>\<^verbatim>\<open>response.ok\<close>: the status is in the range 200-299.\<close>

definition ok :: "response \<Rightarrow> bool" where
  "ok r = (200 \<le> status r \<and> status r \<le> 299)"

text \<open>
  The document jsdom builds, as the sequence of its nodes in document order. The two
  passes of \<^verbatim>\<open>processImages\<close> read and write attributes of elements only and never
  change the structure, so an element is represented by its start tag.
\<close>

datatype node =
    StartTag (tagName: string) (attributes: "(string \<times> string) list")
  | EndTag string
  | Text string

type_synonym document = "node list"

text \<open>The node turndown hands to a rule: the two properties the code-block rule reads.\<close>

record dom_element =
  className :: string
  textContent :: string

text \<open>
  The labels lang-detector returns. They are exactly the keys of the table
  \<^verbatim>\<open>languageMap\<close> in the constructor; \<open>Lang_Cpp\<close> is the label \<^verbatim>\<open>C++\<close>.
\<close>

datatype language_label =
    Lang_JavaScript | Lang_C | Lang_Cpp | Lang_Python | Lang_Java | Lang_HTML
  | Lang_CSS | Lang_Ruby | Lang_Go | Lang_PHP | Lang_Unknown

text \<open>
  The frontmatter is a JavaScript object: an ordered list of keys with their values, in
  insertion order. Setting a key that exists keeps its position (\<open>AList.update\<close>).
\<close>

datatype yaml_value =
    YString string
  | YNumber int
  | YList "string list"
  | YNull
  | YUndefined

type_synonym frontmatter = "(string \<times> yaml_value) list"

text \<open>The asset mapping \<^verbatim>\<open>imageUrlMap\<close>, a JavaScript \<^verbatim>\<open>Map\<close> in insertion order.\<close>

type_synonym url_map = "(string \<times> string) list"

text \<open>
  A post as the REST API returns it with \<^verbatim>\<open>_embed=1\<close>. A term and a featured medium
  are represented by the one property the exporter reads (\<^verbatim>\<open>name\<close>, \<^verbatim>\<open>source_url\<close>);
  an embedded author may lack its name.
\<close>

record embedded =
  wp_term :: "string list list option"
  emb_author :: "string option list option"
  wp_featuredmedia :: "string list option"

record yoast =
  description :: "string option"

record post =
  slug :: string
  title_rendered :: string
  date :: string
  modified :: string
  post_status :: string
  content_rendered :: string
  excerpt_rendered :: string
  author :: int
  post_embedded :: "embedded option"
  yoast_head_json :: "yoast option"

text \<open>A plugin class: its static name and its three static hooks, each of which may throw.\<close>

record plugin =
  plugin_name :: string
  processFrontMatter :: "frontmatter \<Rightarrow> post \<Rightarrow> error + frontmatter"
  processHtml :: "string \<Rightarrow> url_map \<Rightarrow> error + string"
  processMarkdown :: "string \<Rightarrow> error + string"

text \<open>The fields of the exporter object after its constructor and \<^verbatim>\<open>init\<close> have run.\<close>

record exporter =
  wpUrl :: string
  baseDir :: string
  imagesDir :: string
  codeClasses :: "string list"
  preserveTags :: "string list"
  plugins :: "string list"
  loadedPlugins :: "plugin list"

text \<open>
  What the process does to the outside world, in the order it does it. The two forms of
  \<^verbatim>\<open>fs.writeFile\<close> in the code are two events: \<open>WriteBuffer\<close> for the bytes of an image,
  \<open>WriteText\<close> for a Markdown document written as utf8.
\<close>

datatype event =
    Fetch string
  | Mkdir string
  | WriteBuffer string string
  | WriteText string string
  | ConsoleLog string
  | ConsoleError string
  | ProcessExit nat

text \<open>
  The outcome of \<^verbatim>\<open>fetchPosts\<close>: the posts, an exception, or \<^verbatim>\<open>process.exit(1)\<close> on a 404.
\<close>

datatype fetch_outcome =
    Posts "post list"
  | FetchThrew error
  | FetchExited

text \<open>
  The external collaborators. The remote site and the disk need not answer the same
  request twice in the same way: \<open>fetch\<close>, \<open>fs_mkdir\<close> and \<open>fs_writeFile\<close> get, as their first
  argument, the trace of everything the process has done before the call, and their
  outcome may depend on it. The other fields are libraries that compute a value from
  their arguments.
  \<^item> \<open>fetch\<close>: the global \<^verbatim>\<open>fetch\<close> followed by \<^verbatim>\<open>arrayBuffer()\<close>; \<open>Inl\<close> is a rejection.
  \<^item> \<open>fs_mkdir\<close>, \<open>fs_writeFile\<close>: \<open>None\<close> is success, \<open>Some e\<close> the exception thrown.
  \<^item> \<open>sanitize\<close>: the package sanitize-filename.
  \<^item> \<open>jsdom_parse\<close>, \<open>jsdom_innerHTML\<close>: \<^verbatim>\<open>new JSDOM(content)\<close> and \<^verbatim>\<open>body.innerHTML\<close>.
  \<^item> \<open>reflect_url\<close>: what the getters \<^verbatim>\<open>img.src\<close> and \<^verbatim>\<open>a.href\<close> make of the attribute value.
  \<^item> \<open>detectLang\<close>: the package lang-detector.
  \<^item> \<open>turndown\<close>: the conversion of turndown (ATX headings, fenced code blocks, the gfm
    plugin) given the rule added by the constructor and the tags to keep.
  \<^item> \<open>dump_pair\<close>: the lines js-yaml writes for one key of a mapping with its value.
  \<^item> \<open>allPlugins\<close>: the plugin classes \<^verbatim>\<open>loadPlugins\<close> finds.
  \<^item> \<open>fetchPosts\<close>: the outcome of the paginated crawl; its own requests are not part of
    the trace.
\<close>

record env =
  fetch :: "event list \<Rightarrow> string \<Rightarrow> error + response"
  fs_mkdir :: "event list \<Rightarrow> string \<Rightarrow> error option"
  fs_writeFile :: "event list \<Rightarrow> string \<Rightarrow> error option"
  sanitize :: "string \<Rightarrow> string"
  jsdom_parse :: "string \<Rightarrow> document"
  jsdom_innerHTML :: "document \<Rightarrow> string"
  reflect_url :: "string \<Rightarrow> string"
  detectLang :: "string \<Rightarrow> language_label"
  turndown :: "(dom_element \<Rightarrow> string option) \<Rightarrow> string list \<Rightarrow> string \<Rightarrow> error + string"
  dump_pair :: "string \<Rightarrow> yaml_value \<Rightarrow> string"
  allPlugins :: "plugin list"
  fetchPosts :: fetch_outcome

subsection \<open>Strings\<close>

abbreviation LF :: char where "LF \<equiv> CHR 0x0A"
abbreviation CR :: char where "CR \<equiv> CHR 0x0D"
abbreviation BACKSLASH :: char where "BACKSLASH \<equiv> CHR 0x5C"

text \<open>
  \<^verbatim>\<open>s.replace(/pat/g, r)\<close> for a pattern \<open>pat\<close> of literal characters: scan from the
  left, replace a match and go on behind it. The patterns of the code are not empty.
\<close>

fun replace_all :: "string \<Rightarrow> string \<Rightarrow> string \<Rightarrow> string" where
  "replace_all pat r [] = []"
| "replace_all pat r (c # s) =
     (if pat \<noteq> [] \<and> prefix pat (c # s) then r @ replace_all pat r (drop (length pat - 1) s)
      else c # replace_all pat r s)"

text \<open>
  \<^verbatim>\<open>String.prototype.trim\<close> removes white space and line terminators at both ends. Of
  these, the code units below 256 are tab, line feed, vertical tab, form feed, carriage
  return, space and no-break space.
\<close>

definition is_whitespace :: "char \<Rightarrow> bool" where
  "is_whitespace c = ((of_char c :: nat) \<in> {9, 10, 11, 12, 13, 32, 160})"

definition trim :: "string \<Rightarrow> string" where
  "trim s = rev (dropWhile is_whitespace (rev (dropWhile is_whitespace s)))"

text \<open>\<^verbatim>\<open>s.indexOf(pat)\<close>: the first index at which \<open>pat\<close> occurs in \<open>s\<close>, or -1.\<close>

fun indexOf :: "string \<Rightarrow> string \<Rightarrow> int" where
  "indexOf [] pat = (if pat = [] then 0 else - 1)"
| "indexOf (c # s) pat =
     (if prefix pat (c # s) then 0
      else (let r = indexOf s pat in if r = - 1 then - 1 else r + 1))"

text \<open>\<^verbatim>\<open>s.split(sep)\<close> for a separator of one character; the result is never empty.\<close>

fun split :: "char \<Rightarrow> string \<Rightarrow> string list" where
  "split sep [] = [[]]"
| "split sep (c # s) =
     (if c = sep then [] # split sep s
      else (case split sep s of [] \<Rightarrow> [[c]] | p # ps \<Rightarrow> (c # p) # ps))"

text \<open>A string is falsy exactly when it is empty.\<close>

definition truthy :: "string \<Rightarrow> bool" where
  "truthy s = (s \<noteq> [])"

text \<open>The decimal digits of a number in a template string.\<close>

fun digits :: "nat \<Rightarrow> nat \<Rightarrow> string" where
  "digits 0 n = []"
| "digits (Suc k) n =
     (if n < 10 then [char_of (48 + n)] else digits k (n div 10) @ [char_of (48 + n mod 10)])"

definition show_nat :: "nat \<Rightarrow> string" where
  "show_nat n = digits (Suc n) n"

subsection \<open>JSON.parse\<close>

text \<open>
  \<^verbatim>\<open>JSON.parse\<close> accepts exactly the JSON texts of ECMA-404: one value of any kind
  (object, array, string, number, \<^verbatim>\<open>true\<close>, \<^verbatim>\<open>false\<close>, \<^verbatim>\<open>null\<close>) with white space around the
  tokens. The recogniser reads the text once from the left, with the stack of the open
  arrays and objects.
\<close>

datatype json_container = InArray | InObject

datatype json_state =
    JValue
  | JArrayStart
  | JObjectStart
  | JKey
  | JColon
  | JAfter
  | JString bool
  | JEscape bool
  | JHex bool nat
  | JLiteral string
  | JMinus
  | JZero
  | JInt
  | JDot
  | JFrac
  | JExp
  | JExpSign
  | JExpDigits

definition json_ws :: "char \<Rightarrow> bool" where
  "json_ws c = (c = CHR 0x20 \<or> c = CHR 0x09 \<or> c = LF \<or> c = CR)"

definition is_digit :: "char \<Rightarrow> bool" where
  "is_digit c = (48 \<le> (of_char c :: nat) \<and> (of_char c :: nat) \<le> 57)"

definition is_hex_digit :: "char \<Rightarrow> bool" where
  "is_hex_digit c =
     (is_digit c \<or> (65 \<le> (of_char c :: nat) \<and> (of_char c :: nat) \<le> 70)
      \<or> (97 \<le> (of_char c :: nat) \<and> (of_char c :: nat) \<le> 102))"

text \<open>A value is complete: what may follow it.\<close>

definition json_after :: "json_container list \<Rightarrow> char \<Rightarrow> (json_state \<times> json_container list) option" where
  "json_after st c =
     (if json_ws c then Some (JAfter, st)
      else if c = CHR '','' then
        (case st of InArray # _ \<Rightarrow> Some (JValue, st) | InObject # _ \<Rightarrow> Some (JKey, st) | [] \<Rightarrow> None)
      else if c = CHR '']'' then
        (case st of InArray # st' \<Rightarrow> Some (JAfter, st') | _ \<Rightarrow> None)
      else if c = CHR ''}'' then
        (case st of InObject # st' \<Rightarrow> Some (JAfter, st') | _ \<Rightarrow> None)
      else None)"

text \<open>A value is expected: its first character.\<close>

definition json_value_start :: "json_container list \<Rightarrow> char \<Rightarrow> (json_state \<times> json_container list) option" where
  "json_value_start st c =
     (if c = CHR ''{'' then Some (JObjectStart, InObject # st)
      else if c = CHR ''['' then Some (JArrayStart, InArray # st)
      else if c = CHR 0x22 then Some (JString False, st)
      else if c = CHR ''-'' then Some (JMinus, st)
      else if c = CHR ''0'' then Some (JZero, st)
      else if is_digit c then Some (JInt, st)
      else if c = CHR ''t'' then Some (JLiteral ''rue'', st)
      else if c = CHR ''f'' then Some (JLiteral ''alse'', st)
      else if c = CHR ''n'' then Some (JLiteral ''ull'', st)
      else None)"

fun json_step :: "json_state \<Rightarrow> json_container list \<Rightarrow> char \<Rightarrow> (json_state \<times> json_container list) option" where
  "json_step JValue st c = (if json_ws c then Some (JValue, st) else json_value_start st c)"
| "json_step JArrayStart st c =
     (if json_ws c then Some (JArrayStart, st)
      else if c = CHR '']'' then Some (JAfter, tl st)
      else json_value_start st c)"
| "json_step JObjectStart st c =
     (if json_ws c then Some (JObjectStart, st)
      else if c = CHR ''}'' then Some (JAfter, tl st)
      else if c = CHR 0x22 then Some (JString True, st)
      else None)"
| "json_step JKey st c =
     (if json_ws c then Some (JKey, st)
      else if c = CHR 0x22 then Some (JString True, st)
      else None)"
| "json_step JColon st c =
     (if json_ws c then Some (JColon, st)
      else if c = CHR '':'' then Some (JValue, st)
      else None)"
| "json_step JAfter st c = json_after st c"
| "json_step (JString k) st c =
     (if c = CHR 0x22 then Some (if k then JColon else JAfter, st)
      else if c = BACKSLASH then Some (JEscape k, st)
      else if (of_char c :: nat) < 32 then None
      else Some (JString k, st))"
| "json_step (JEscape k) st c =
     (if c \<in> set [CHR 0x22, BACKSLASH, CHR ''/'', CHR ''b'', CHR ''f'', CHR ''n'', CHR ''r'', CHR ''t'']
      then Some (JString k, st)
      else if c = CHR ''u'' then Some (JHex k 4, st)
      else None)"
| "json_step (JHex k n) st c =
     (if is_hex_digit c then Some (if n \<le> 1 then JString k else JHex k (n - 1), st) else None)"
| "json_step (JLiteral l) st c =
     (case l of [] \<Rightarrow> None
      | x # xs \<Rightarrow> if c = x then Some (if xs = [] then JAfter else JLiteral xs, st) else None)"
| "json_step JMinus st c =
     (if c = CHR ''0'' then Some (JZero, st) else if is_digit c then Some (JInt, st) else None)"
| "json_step JZero st c =
     (if c = CHR ''.'' then Some (JDot, st)
      else if c = CHR ''e'' \<or> c = CHR ''E'' then Some (JExp, st)
      else json_after st c)"
| "json_step JInt st c =
     (if is_digit c then Some (JInt, st)
      else if c = CHR ''.'' then Some (JDot, st)
      else if c = CHR ''e'' \<or> c = CHR ''E'' then Some (JExp, st)
      else json_after st c)"
| "json_step JDot st c = (if is_digit c then Some (JFrac, st) else None)"
| "json_step JFrac st c =
     (if is_digit c then Some (JFrac, st)
      else if c = CHR ''e'' \<or> c = CHR ''E'' then Some (JExp, st)
      else json_after st c)"
| "json_step JExp st c =
     (if c = CHR ''+'' \<or> c = CHR ''-'' then Some (JExpSign, st)
      else if is_digit c then Some (JExpDigits, st)
      else None)"
| "json_step JExpSign st c = (if is_digit c then Some (JExpDigits, st) else None)"
| "json_step JExpDigits st c = (if is_digit c then Some (JExpDigits, st) else json_after st c)"

text \<open>The end of the text: one complete value, nothing open.\<close>

definition json_final :: "json_state \<Rightarrow> json_container list \<Rightarrow> bool" where
  "json_final s st = (st = [] \<and> s \<in> set [JAfter, JZero, JInt, JFrac, JExpDigits])"

fun json_run :: "json_state \<Rightarrow> json_container list \<Rightarrow> string \<Rightarrow> bool" where
  "json_run s st [] = json_final s st"
| "json_run s st (c # cs) =
     (case json_step s st c of None \<Rightarrow> False | Some (s', st') \<Rightarrow> json_run s' st' cs)"

text \<open>\<^verbatim>\<open>JSON.parse(text)\<close>, up to the value it returns: a \<^verbatim>\<open>SyntaxError\<close> or success.\<close>

definition JSON_parse :: "string \<Rightarrow> error + unit" where
  "JSON_parse text = (if json_run JValue [] text then Inr () else Inl (Error ''SyntaxError''))"

subsection \<open>The code-block rule of the constructor\<close>

text \<open>\<^verbatim>\<open>isJson\<close>: try \<^verbatim>\<open>JSON.parse\<close>, true if it returns, false if it throws.\<close>

definition isJson :: "string \<Rightarrow> bool" where
  "isJson code = (case JSON_parse code of Inr _ \<Rightarrow> True | Inl e \<Rightarrow> False)"

text \<open>The table \<^verbatim>\<open>languageMap\<close>.\<close>

fun languageMap :: "language_label \<Rightarrow> string" where
  "languageMap Lang_JavaScript = ''javascript''"
| "languageMap Lang_C = ''c''"
| "languageMap Lang_Cpp = ''cpp''"
| "languageMap Lang_Python = ''python''"
| "languageMap Lang_Java = ''java''"
| "languageMap Lang_HTML = ''html''"
| "languageMap Lang_CSS = ''css''"
| "languageMap Lang_Ruby = ''ruby''"
| "languageMap Lang_Go = ''go''"
| "languageMap Lang_PHP = ''php''"
| "languageMap Lang_Unknown = ''''"

text \<open>
  \<^verbatim>\<open>filter: (node) => this.codeClasses.some(className =>
      node.className.indexOf(className) !== -1)\<close>
\<close>

definition codeBlocks_filter :: "exporter \<Rightarrow> dom_element \<Rightarrow> bool" where
  "codeBlocks_filter X node =
     list_ex (\<lambda>cls. indexOf (className node) cls \<noteq> - 1) (codeClasses X)"

text \<open>The three replacements and the trim of \<^verbatim>\<open>node.textContent\<close>, in the order of the code.\<close>

definition normalize_code :: "string \<Rightarrow> string" where
  "normalize_code text =
     trim (replace_all [CR] [LF] (replace_all [CR, LF] [LF] (replace_all [BACKSLASH, CHR ''n''] [LF] text)))"

definition codeBlocks_replacement :: "env \<Rightarrow> dom_element \<Rightarrow> string" where
  "codeBlocks_replacement E node =
     (let code = normalize_code (textContent node);
          language = languageMap (detectLang E code);
          language = (if \<not> truthy language \<and> isJson code then ''json'' else language)
      in ''```'' @ (if truthy language then language else '''') @ [LF] @ code @ [LF] @ ''```'' @ [LF, LF])"

text \<open>
  The rule \<^verbatim>\<open>codeBlocks\<close> as turndown uses it: the replacement applies to the nodes the
  filter accepts and to no other.
\<close>

definition codeBlocks :: "env \<Rightarrow> exporter \<Rightarrow> dom_element \<Rightarrow> string option" where
  "codeBlocks E X node = (if codeBlocks_filter X node then Some (codeBlocks_replacement E node) else None)"

subsection \<open>Node's path.join\<close>

text \<open>
  \<^verbatim>\<open>path.join\<close> on a POSIX system: the arguments that are not empty, joined by a slash
  and normalised. \<open>normalizeString\<close> works on the segments between the slashes: empty
  segments and \<^verbatim>\<open>.\<close> are dropped, \<^verbatim>\<open>..\<close> removes the segment before it, or stays when
  there is none and the path is relative. \<open>res\<close> holds the segments kept so far, the last
  one first.
\<close>

fun normalizeString :: "bool \<Rightarrow> string list \<Rightarrow> string list \<Rightarrow> string list" where
  "normalizeString allowAboveRoot [] res = rev res"
| "normalizeString allowAboveRoot (seg # segs) res =
     (if seg = [] \<or> seg = ''.'' then normalizeString allowAboveRoot segs res
      else if seg = ''..'' then
        (case res of
           [] \<Rightarrow> normalizeString allowAboveRoot segs (if allowAboveRoot then [''..''] else [])
         | r # rs \<Rightarrow>
             if r = ''..'' then normalizeString allowAboveRoot segs (if allowAboveRoot then ''..'' # res else res)
             else normalizeString allowAboveRoot segs rs)
      else normalizeString allowAboveRoot segs (seg # res))"

fun join_with :: "string \<Rightarrow> string list \<Rightarrow> string" where
  "join_with sep [] = []"
| "join_with sep [x] = x"
| "join_with sep (x # y # xs) = x @ sep @ join_with sep (y # xs)"

definition path_normalize :: "string \<Rightarrow> string" where
  "path_normalize path =
     (if path = [] then ''.''
      else
        (let isAbsolute = (hd path = CHR ''/'');
             trailingSeparator = (last path = CHR ''/'');
             p = join_with ''/'' (normalizeString (\<not> isAbsolute) (split (CHR ''/'') path) [])
         in if p = [] then (if isAbsolute then ''/'' else if trailingSeparator then ''./'' else ''.'')
            else (if isAbsolute then ''/'' else []) @ p @ (if trailingSeparator then ''/'' else [])))"

definition path_join :: "string list \<Rightarrow> string" where
  "path_join args =
     (let joined = filter (\<lambda>arg. arg \<noteq> []) args
      in if joined = [] then ''.'' else path_normalize (join_with ''/'' joined))"

subsection \<open>yaml.dump\<close>

text \<open>
  \<^verbatim>\<open>yaml.dump(frontMatter)\<close> is called without options. For a plain object js-yaml 4 then
  writes a block mapping: it goes through the keys of the object in their order
  (\<^verbatim>\<open>sortKeys\<close> is off), writes each pair on lines of its own, and skips a pair whose
  value is \<^verbatim>\<open>undefined\<close>; an object with no pair to write gives \<^verbatim>\<open>{}\<close>. How one pair is
  written (quoting, folding, the items of a list) is the field \<open>dump_pair\<close> of the
  environment.
\<close>

definition yaml_dump :: "env \<Rightarrow> frontmatter \<Rightarrow> string" where
  "yaml_dump E frontMatter =
     (let written = filter (\<lambda>(key, v). v \<noteq> YUndefined) frontMatter
      in if written = [] then ''{}'' @ [LF]
         else concat (map (\<lambda>(key, v). dump_pair E key v) written))"

subsection \<open>Asset resolution: downloadImage and processImages\<close>

definition download_warning :: "string \<Rightarrow> error \<Rightarrow> event" where
  "download_warning imageUrl e =
     ConsoleError (''Warning: Failed to download image '' @ imageUrl @ '': '' @ message e)"

text \<open>
  \<^verbatim>\<open>downloadImage\<close>, called when the trace so far is \<open>h\<close>: every exception inside the \<^verbatim>\<open>try\<close>
  is caught, logged as a warning and turned into \<^verbatim>\<open>null\<close>. The result is \<^verbatim>\<open>imagePath\<close>
  itself, the path the bytes were written to. \<open>Fetch\<close> records the request, \<open>Mkdir\<close> and
  \<open>WriteBuffer\<close> what succeeded. The events returned are those of this call.
\<close>

definition downloadImage ::
  "env \<Rightarrow> exporter \<Rightarrow> event list \<Rightarrow> string \<Rightarrow> string \<Rightarrow> event list \<times> string option" where
  "downloadImage E X h imageUrl postSlug =
     (case fetch E h imageUrl of
        Inl e \<Rightarrow> ([Fetch imageUrl, download_warning imageUrl e], None)
      | Inr response \<Rightarrow>
          if \<not> ok response then
            ([Fetch imageUrl,
              download_warning imageUrl (Error (''HTTP error! status: '' @ show_nat (status response)))],
             None)
          else
            (let buffer = body response;
                 urlParts = split (CHR ''/'') imageUrl;
                 originalFilename = last urlParts;
                 postImageDir = path_join [imagesDir X, sanitize E postSlug]
             in case fs_mkdir E (h @ [Fetch imageUrl]) postImageDir of
                  Some e \<Rightarrow> ([Fetch imageUrl, download_warning imageUrl e], None)
                | None \<Rightarrow>
                    (let imagePath = path_join [postImageDir, sanitize E originalFilename]
                     in case fs_writeFile E (h @ [Fetch imageUrl, Mkdir postImageDir]) imagePath of
                          Some e \<Rightarrow>
                            ([Fetch imageUrl, Mkdir postImageDir, download_warning imageUrl e], None)
                        | None \<Rightarrow>
                            ([Fetch imageUrl, Mkdir postImageDir, WriteBuffer imagePath buffer],
                             Some imagePath))))"

text \<open>\<^verbatim>\<open>getElementsByTagName\<close> selects the elements of one tag name.\<close>

fun is_element :: "string \<Rightarrow> node \<Rightarrow> bool" where
  "is_element t (StartTag name attrs) = (name = t)"
| "is_element t n = False"

text \<open>
  The getters \<^verbatim>\<open>img.src\<close> and \<^verbatim>\<open>a.href\<close>: the empty string when the attribute is missing,
  else what jsdom makes of its value. The setters write the attribute.
\<close>

fun url_property :: "env \<Rightarrow> string \<Rightarrow> node \<Rightarrow> string" where
  "url_property E a (StartTag name attrs) =
     (case map_of attrs a of None \<Rightarrow> [] | Some v \<Rightarrow> reflect_url E v)"
| "url_property E a n = []"

fun set_property :: "string \<Rightarrow> string \<Rightarrow> node \<Rightarrow> node" where
  "set_property a v (StartTag name attrs) = StartTag name (AList.update a v attrs)"
| "set_property a v n = n"

text \<open>
  The body of the first loop for one \<^verbatim>\<open>img\<close> element, reached when the trace is \<open>h\<close>: the
  events, the element afterwards, \<^verbatim>\<open>downloadedImages\<close> and \<^verbatim>\<open>imageUrlMap\<close>.
\<close>

definition processImg ::
  "env \<Rightarrow> exporter \<Rightarrow> string \<Rightarrow> event list \<Rightarrow> node \<Rightarrow> string list \<Rightarrow> url_map
     \<Rightarrow> event list \<times> node \<times> string list \<times> url_map" where
  "processImg E X postSlug h img downloadedImages imageUrlMap =
     (let imageUrl = url_property E ''src'' img
      in if \<not> truthy imageUrl then ([], img, downloadedImages, imageUrlMap)
         else
           (case downloadImage E X h imageUrl postSlug of
              (ev, Some newPath) \<Rightarrow>
                if truthy newPath then
                  (ev, set_property ''src'' newPath img, downloadedImages @ [newPath],
                   AList.update imageUrl newPath imageUrlMap)
                else (ev, img, downloadedImages, imageUrlMap)
            | (ev, None) \<Rightarrow> (ev, img, downloadedImages, imageUrlMap)))"

text \<open>
  The first loop, over the \<^verbatim>\<open>img\<close> elements in document order. Each element is processed
  after the events of the elements before it.
\<close>

fun firstPass ::
  "env \<Rightarrow> exporter \<Rightarrow> string \<Rightarrow> event list \<Rightarrow> document \<Rightarrow> string list \<Rightarrow> url_map
     \<Rightarrow> event list \<times> document \<times> string list \<times> url_map" where
  "firstPass E X postSlug h [] downloadedImages imageUrlMap = ([], [], downloadedImages, imageUrlMap)"
| "firstPass E X postSlug h (n # ns) downloadedImages imageUrlMap =
     (if is_element ''img'' n then
        (case processImg E X postSlug h n downloadedImages imageUrlMap of
           (ev, n', downloadedImages', imageUrlMap') \<Rightarrow>
             (case firstPass E X postSlug (h @ ev) ns downloadedImages' imageUrlMap' of
                (evs, ns', d, m) \<Rightarrow> (ev @ evs, n' # ns', d, m)))
      else
        (case firstPass E X postSlug h ns downloadedImages imageUrlMap of
           (evs, ns', d, m) \<Rightarrow> (evs, n # ns', d, m)))"

text \<open>
  The body of the second loop for one \<^verbatim>\<open>a\<close> element. The loop calls neither the network
  nor the disk, so it does not need the trace.
\<close>

definition processLink :: "env \<Rightarrow> url_map \<Rightarrow> node \<Rightarrow> event list \<times> node" where
  "processLink E imageUrlMap link =
     (let href = url_property E ''href'' link
      in case map_of imageUrlMap href of
           Some newPath \<Rightarrow>
             if truthy href then
               (let link' = set_property ''href'' newPath link
                in ([ConsoleLog (''Updated link: '' @ href @ '' -> '' @ url_property E ''href'' link')], link'))
             else ([], link)
         | None \<Rightarrow> ([], link))"

fun secondPass :: "env \<Rightarrow> url_map \<Rightarrow> document \<Rightarrow> event list \<times> document" where
  "secondPass E imageUrlMap [] = ([], [])"
| "secondPass E imageUrlMap (n # ns) =
     (case (if is_element ''a'' n then processLink E imageUrlMap n else ([], n)) of
        (ev, n') \<Rightarrow> (case secondPass E imageUrlMap ns of (evs, ns') \<Rightarrow> (ev @ evs, n' # ns')))"

text \<open>\<^verbatim>\<open>processImages\<close> returns the events and \<^verbatim>\<open>{ imageUrlMap, content }\<close>.\<close>

definition processImages ::
  "env \<Rightarrow> exporter \<Rightarrow> event list \<Rightarrow> string \<Rightarrow> string \<Rightarrow> event list \<times> url_map \<times> string" where
  "processImages E X h content postSlug =
     (let dom = jsdom_parse E content
      in case firstPass E X postSlug h dom [] [] of
           (ev1, dom1, downloadedImages, imageUrlMap) \<Rightarrow>
             (case secondPass E imageUrlMap dom1 of
                (ev2, dom2) \<Rightarrow>
                  (ev1 @ ev2 @
                   [ConsoleLog (''Downloaded '' @ show_nat (length downloadedImages)
                                @ '' images for post: '' @ postSlug)],
                   imageUrlMap, jsdom_innerHTML E dom2)))"

subsection \<open>Frontmatter\<close>

text \<open>\<^verbatim>\<open>xs?.[i]\<close>: the element, or \<^verbatim>\<open>undefined\<close> beyond the end of the array.\<close>

definition at_index :: "'a list \<Rightarrow> nat \<Rightarrow> 'a option" where
  "at_index xs i = (if i < length xs then Some (xs ! i) else None)"

text \<open>
  \<^verbatim>\<open>extractTermNames(terms)\<close>: the names of the terms, or the empty list when \<open>terms\<close> is
  undefined. A term is represented by its name, so \<^verbatim>\<open>terms.map(term => term.name)\<close> is
  the list itself.
\<close>

definition extractTermNames :: "string list option \<Rightarrow> string list" where
  "extractTermNames terms = (case terms of Some ts \<Rightarrow> map (\<lambda>term. term) ts | None \<Rightarrow> [])"

text \<open>
  \<^verbatim>\<open>extractFeaturedImage\<close>: no embedded media gives \<^verbatim>\<open>null\<close>; a source URL already in the
  mapping gives the recorded path without a download; any other is downloaded.
\<close>

definition extractFeaturedImage ::
  "env \<Rightarrow> exporter \<Rightarrow> event list \<Rightarrow> post \<Rightarrow> url_map \<Rightarrow> event list \<times> string option" where
  "extractFeaturedImage E X h post imageUrlMap =
     (case Option.bind (Option.bind (post_embedded post) wp_featuredmedia) (\<lambda>media. at_index media 0) of
        None \<Rightarrow> ([], None)
      | Some sourceUrl \<Rightarrow>
          (case map_of imageUrlMap sourceUrl of
             Some path \<Rightarrow> ([], Some path)
           | None \<Rightarrow> downloadImage E X h sourceUrl (slug post)))"

text \<open>The object \<^verbatim>\<open>frontMatter\<close> of \<^verbatim>\<open>createFrontMatter\<close> before the plugins see it.\<close>

definition baseFrontMatter :: "exporter \<Rightarrow> post \<Rightarrow> string option \<Rightarrow> frontmatter" where
  "baseFrontMatter X post featuredMediaUrl =
     (let categories =
            extractTermNames (Option.bind (Option.bind (post_embedded post) wp_term) (\<lambda>t. at_index t 0));
          tags =
            extractTermNames (Option.bind (Option.bind (post_embedded post) wp_term) (\<lambda>t. at_index t 1));
          author =
            (case Option.bind (Option.bind (Option.bind (post_embedded post) emb_author)
                    (\<lambda>a. at_index a 0)) (\<lambda>name. name) of
               Some name \<Rightarrow> if truthy name then YString name else YNumber (author post)
             | None \<Rightarrow> YNumber (author post));
          frontMatter =
            [(''title'', YString (title_rendered post)),
             (''date'', YString (date post)),
             (''modified'', YString (modified post)),
             (''slug'', YString (slug post)),
             (''status'', YString (post_status post)),
             (''categories'', YList categories),
             (''tags'', YList tags),
             (''author'', author),
             (''excerpt'', YString (excerpt_rendered post)),
             (''original_url'', YString (wpUrl X @ ''/'' @ slug post))]
      in case featuredMediaUrl of
           Some path \<Rightarrow>
             if truthy path then AList.update ''featured_image'' (YString path) frontMatter
             else frontMatter
         | None \<Rightarrow> frontMatter)"

text \<open>
  The three loops over \<^verbatim>\<open>this.loadedPlugins\<close>: each hook gets what the hook before it
  returned; an exception of a hook ends the loop.
\<close>

fun foldFrontMatter :: "plugin list \<Rightarrow> frontmatter \<Rightarrow> post \<Rightarrow> error + frontmatter" where
  "foldFrontMatter [] frontMatter post = Inr frontMatter"
| "foldFrontMatter (plugin # ps) frontMatter post =
     (case processFrontMatter plugin frontMatter post of
        Inl e \<Rightarrow> Inl e
      | Inr frontMatter' \<Rightarrow> foldFrontMatter ps frontMatter' post)"

fun foldHtml :: "plugin list \<Rightarrow> string \<Rightarrow> url_map \<Rightarrow> error + string" where
  "foldHtml [] processedHtml imageUrlMap = Inr processedHtml"
| "foldHtml (plugin # ps) processedHtml imageUrlMap =
     (case processHtml plugin processedHtml imageUrlMap of
        Inl e \<Rightarrow> Inl e
      | Inr processedHtml' \<Rightarrow> foldHtml ps processedHtml' imageUrlMap)"

fun foldMarkdown :: "plugin list \<Rightarrow> string \<Rightarrow> error + string" where
  "foldMarkdown [] markdown = Inr markdown"
| "foldMarkdown (plugin # ps) markdown =
     (case processMarkdown plugin markdown of
        Inl e \<Rightarrow> Inl e
      | Inr markdown' \<Rightarrow> foldMarkdown ps markdown')"

text \<open>
  \<^verbatim>\<open>createFrontMatter\<close>: the featured image, the object, the plugins, and the dump of what
  the last plugin returned between the two lines of dashes.
\<close>

definition createFrontMatter ::
  "env \<Rightarrow> exporter \<Rightarrow> event list \<Rightarrow> post \<Rightarrow> url_map \<Rightarrow> event list \<times> (error + string)" where
  "createFrontMatter E X h post imageUrlMap =
     (case extractFeaturedImage E X h post imageUrlMap of
        (ev, featuredMediaUrl) \<Rightarrow>
          (case foldFrontMatter (loadedPlugins X) (baseFrontMatter X post featuredMediaUrl) post of
             Inl e \<Rightarrow> (ev, Inl e)
           | Inr frontMatter \<Rightarrow>
               (ev, Inr (''---'' @ [LF] @ yaml_dump E frontMatter @ ''---'' @ [LF, LF]))))"

subsection \<open>One post, and the whole run\<close>

definition convertPostToMarkdown ::
  "env \<Rightarrow> exporter \<Rightarrow> event list \<Rightarrow> post \<Rightarrow> event list \<times> (error + string)" where
  "convertPostToMarkdown E X h post =
     (let rawHtml = content_rendered post
      in case processImages E X h rawHtml (slug post) of
           (ev1, imageUrlMap, content) \<Rightarrow>
             (case foldHtml (loadedPlugins X) content imageUrlMap of
                Inl e \<Rightarrow> (ev1, Inl e)
              | Inr processedHtml \<Rightarrow>
                  (case turndown E (codeBlocks E X) (preserveTags X) processedHtml of
                     Inl e \<Rightarrow> (ev1, Inl e)
                   | Inr converted \<Rightarrow>
                       (case foldMarkdown (loadedPlugins X) converted of
                          Inl e \<Rightarrow> (ev1, Inl e)
                        | Inr markdown \<Rightarrow>
                            (case createFrontMatter E X (h @ ev1) post imageUrlMap of
                               (ev2, Inl e) \<Rightarrow> (ev1 @ ev2, Inl e)
                             | (ev2, Inr frontMatter) \<Rightarrow> (ev1 @ ev2, Inr (frontMatter @ markdown)))))))"

text \<open>
  \<^verbatim>\<open>_loadPlugins\<close>: the plugins named in the configuration, in that order, each looked up
  by name among the classes found; the names not found are collected.
\<close>

fun lookupPlugins :: "plugin list \<Rightarrow> string list \<Rightarrow> plugin list \<times> string list" where
  "lookupPlugins found [] = ([], [])"
| "lookupPlugins found (pluginName # names) =
     (case lookupPlugins found names of
        (loaded, missingPlugins) \<Rightarrow>
          (case find (\<lambda>p. plugin_name p = pluginName) found of
             None \<Rightarrow> (loaded, pluginName # missingPlugins)
           | Some plugin \<Rightarrow> (plugin # loaded, missingPlugins)))"

text \<open>How a call ends: it returns, it throws, or the process has exited inside it.\<close>

datatype 'a outcome = Returned 'a | Threw error | Exited

text \<open>
  \<^verbatim>\<open>init\<close>, the first thing a run does: the two directories, then the plugins; a missing
  plugin ends the process.
\<close>

definition init :: "env \<Rightarrow> exporter \<Rightarrow> event list \<times> exporter outcome" where
  "init E X =
     (case fs_mkdir E [] (baseDir X) of
        Some e \<Rightarrow> ([], Threw e)
      | None \<Rightarrow>
          (case fs_mkdir E [Mkdir (baseDir X)] (imagesDir X) of
             Some e \<Rightarrow> ([Mkdir (baseDir X)], Threw e)
           | None \<Rightarrow>
               (case lookupPlugins (allPlugins E) (plugins X) of
                  (loaded, missingPlugins) \<Rightarrow>
                    if missingPlugins \<noteq> [] then
                      ([Mkdir (baseDir X), Mkdir (imagesDir X),
                        ConsoleError (''Plugins not found: '' @ join_with '', '' missingPlugins),
                        ConsoleError (''Available plugins: '' @ join_with '', '' (map plugin_name (allPlugins E))),
                        ProcessExit 1],
                       Exited)
                    else
                      ([Mkdir (baseDir X), Mkdir (imagesDir X)],
                       Returned (X\<lparr>loadedPlugins := loadedPlugins X @ loaded\<rparr>)))))"

text \<open>
  The loop of \<^verbatim>\<open>exportPosts\<close> over the posts, entered when the trace is \<open>h\<close>. There is no
  \<^verbatim>\<open>try\<close> inside the loop: an exception of \<^verbatim>\<open>convertPostToMarkdown\<close> or of \<^verbatim>\<open>fs.writeFile\<close>
  leaves the loop. \<open>n_posts\<close> is \<^verbatim>\<open>posts.length\<close>, \<open>converted\<close> the counter.
\<close>

fun exportLoop ::
  "env \<Rightarrow> exporter \<Rightarrow> nat \<Rightarrow> event list \<Rightarrow> post list \<Rightarrow> nat \<Rightarrow> event list \<times> (error + nat)" where
  "exportLoop E X n_posts h [] converted = ([], Inr converted)"
| "exportLoop E X n_posts h (post # rest) converted =
     (let started = ConsoleLog (LF # ''Processing post: '' @ slug post)
      in case convertPostToMarkdown E X (h @ [started]) post of
           (ev, Inl e) \<Rightarrow> (started # ev, Inl e)
         | (ev, Inr markdown) \<Rightarrow>
             (let filename = sanitize E (slug post) @ ''.md'';
                  filePath = path_join [baseDir X, filename]
              in case fs_writeFile E (h @ started # ev) filePath of
                   Some e \<Rightarrow> (started # ev, Inl e)
                 | None \<Rightarrow>
                     (let progress =
                            [WriteText filePath markdown,
                             ConsoleLog (''Progress: '' @ show_nat (converted + 1) @ ''/''
                                         @ show_nat n_posts @ '' posts converted'')]
                      in case exportLoop E X n_posts (h @ started # ev @ progress) rest (converted + 1) of
                           (evs, r) \<Rightarrow> (started # ev @ progress @ evs, r))))"

text \<open>
  \<^verbatim>\<open>exportPosts\<close>: one \<^verbatim>\<open>try\<close> around the whole run; its \<^verbatim>\<open>catch\<close> logs the message of the
  exception and exits with code 1. The result is everything the run did.
\<close>

definition exportPosts :: "env \<Rightarrow> exporter \<Rightarrow> event list" where
  "exportPosts E X =
     (let failed = (\<lambda>e. [ConsoleError (LF # ''Export failed: '' @ message e), ProcessExit 1]);
          converting = ConsoleLog (LF # ''Converting posts to Markdown...'')
      in case init E X of
           (ev0, Exited) \<Rightarrow> ev0
         | (ev0, Threw e) \<Rightarrow> ev0 @ failed e
         | (ev0, Returned X') \<Rightarrow>
             (case fetchPosts E of
                FetchExited \<Rightarrow> ev0 @ [ProcessExit 1]
              | FetchThrew e \<Rightarrow> ev0 @ failed e
              | Posts posts \<Rightarrow>
                  (case exportLoop E X' (length posts) (ev0 @ [converting]) posts 0 of
                     (ev, Inl e) \<Rightarrow> ev0 @ [converting] @ ev @ failed e
                   | (ev, Inr converted) \<Rightarrow>
                       ev0 @ [converting] @ ev
                       @ [ConsoleLog (LF # ''Successfully exported '' @ show_nat (length posts)
                                      @ '' posts to '' @ baseDir X')])))"

text \<open>The Markdown documents a run has written: path and text.\<close>

definition documents :: "event list \<Rightarrow> (string \<times> string) list" where
  "documents evs = concat (map (\<lambda>ev. case ev of WriteText path text \<Rightarrow> [(path, text)] | _ \<Rightarrow> []) evs)"

text \<open>The URLs requested with \<^verbatim>\<open>fetch\<close>, one entry for each call, in the order of the calls.\<close>

definition fetches :: "event list \<Rightarrow> string list" where
  "fetches evs = concat (map (\<lambda>ev. case ev of Fetch url \<Rightarrow> [url] | _ \<Rightarrow> []) evs)"

text \<open>The image files written: path and bytes.\<close>

definition image_files :: "event list \<Rightarrow> (string \<times> string) list" where
  "image_files evs = concat (map (\<lambda>ev. case ev of WriteBuffer path bytes \<Rightarrow> [(path, bytes)] | _ \<Rightarrow> []) evs)"

text \<open>
  The document \<^verbatim>\<open>processImages\<close> serialises at its end, after both passes; the path
  \<^verbatim>\<open>downloadImage\<close> builds for an image URL of a post; and the path of the document of a
  post.
\<close>

definition rewrittenDocument :: "env \<Rightarrow> exporter \<Rightarrow> event list \<Rightarrow> string \<Rightarrow> string \<Rightarrow> document" where
  "rewrittenDocument E X h content postSlug =
     (case firstPass E X postSlug h (jsdom_parse E content) [] [] of
        (ev1, dom1, downloadedImages, imageUrlMap) \<Rightarrow> snd (secondPass E imageUrlMap dom1))"

definition localPath :: "env \<Rightarrow> exporter \<Rightarrow> string \<Rightarrow> string \<Rightarrow> string" where
  "localPath E X imageUrl postSlug =
     path_join [path_join [imagesDir X, sanitize E postSlug], sanitize E (last (split (CHR ''/'') imageUrl))]"

definition documentPath :: "env \<Rightarrow> exporter \<Rightarrow> post \<Rightarrow> string" where
  "documentPath E X post = path_join [baseDir X, sanitize E (slug post) @ ''.md'']"

text \<open>
  What the first loop gets for the source \<open>imageUrl\<close> of an \<^verbatim>\<open>img\<close> element it reaches when
  the trace is \<open>h\<close>: the path \<^verbatim>\<open>downloadImage\<close> returns, if the source is not empty and the
  path passes the test \<^verbatim>\<open>if (newPath)\<close>.
\<close>

definition resolve :: "env \<Rightarrow> exporter \<Rightarrow> string \<Rightarrow> event list \<Rightarrow> string \<Rightarrow> string option" where
  "resolve E X postSlug h imageUrl =
     (if truthy imageUrl then
        (case snd (downloadImage E X h imageUrl postSlug) of
           Some newPath \<Rightarrow> if truthy newPath then Some newPath else None
         | None \<Rightarrow> None)
      else None)"

text \<open>
  The download of the node at position \<open>i\<close> of the parsed fragment, in a call of
  \<^verbatim>\<open>processImages\<close> that starts when the trace is \<open>h\<close>: the first loop reaches the node
  after it has gone through the \<open>i\<close> nodes before it. \<open>None\<close> when the node is not an
  \<^verbatim>\<open>img\<close> element, when its source is empty, or when its download fails.
\<close>

definition ownDownload :: "env \<Rightarrow> exporter \<Rightarrow> event list \<Rightarrow> string \<Rightarrow> string \<Rightarrow> nat \<Rightarrow> string option" where
  "ownDownload E X h content postSlug i =
     (let doc = jsdom_parse E content
      in if i < length doc \<and> is_element ''img'' (doc ! i) then
           resolve E X postSlug (h @ fst (firstPass E X postSlug h (take i doc) [] []))
             (url_property E ''src'' (doc ! i))
         else None)"

subsection \<open>The fold of the specification\<close>

text \<open>
  A left-to-right fold over a list of plugins, each output being the next input; an
  exception ends it. This is the reading of the specification, written with \<^const>\<open>foldl\<close>,
  to compare the three loops of the code with.
\<close>

definition and_then :: "error + 'a \<Rightarrow> ('a \<Rightarrow> error + 'b) \<Rightarrow> error + 'b" where
  "and_then r f = (case r of Inl e \<Rightarrow> Inl e | Inr x \<Rightarrow> f x)"

definition left_fold :: "('p \<Rightarrow> 'a \<Rightarrow> error + 'a) \<Rightarrow> 'p list \<Rightarrow> 'a \<Rightarrow> error + 'a" where
  "left_fold hook ps x = foldl (\<lambda>acc p. and_then acc (hook p)) (Inr x) ps"

subsection \<open>The plugins of the repository\<close>

text \<open>
  The plugin \<^verbatim>\<open>Yoast\<close>: the excerpt becomes \<^verbatim>\<open>yoast_head_json.description\<close>. Reading the
  description of a post without \<^verbatim>\<open>yoast_head_json\<close> throws a \<^verbatim>\<open>TypeError\<close>, whose message
  names the property in single quotes.
\<close>

definition YoastPlugin :: plugin where
  "YoastPlugin =
     \<lparr>plugin_name = ''Yoast'',
      processFrontMatter = (\<lambda>extractedMetadata postContent.
        case yoast_head_json postContent of
          None \<Rightarrow>
            Inl (Error (''Cannot read properties of undefined (reading '' @ [CHR 0x27]
                        @ ''description'' @ [CHR 0x27] @ '')''))
        | Some y \<Rightarrow>
            Inr (AList.update ''excerpt''
                   (case description y of None \<Rightarrow> YUndefined | Some d \<Rightarrow> YString d)
                   extractedMetadata)),
      processHtml = (\<lambda>html imageUrlMap. Inr html),
      processMarkdown = (\<lambda>markdown. Inr markdown)\<rparr>"

text \<open>
  The two versions of the example plugin \<^verbatim>\<open>ExampleFixPaths\<close>. The later one rewrites the
  featured image as well and sets the key to \<^verbatim>\<open>null\<close> when there is none.
\<close>

definition ExampleFixPathsPlugin :: plugin where
  "ExampleFixPathsPlugin =
     \<lparr>plugin_name = ''ExampleFixPaths'',
      processFrontMatter = (\<lambda>extractedMetadata post. Inr extractedMetadata),
      processHtml = (\<lambda>html imageUrlMap. Inr html),
      processMarkdown = (\<lambda>markdown. Inr (replace_all ''images/'' ''/images/blogs/'' markdown))\<rparr>"

definition replaceUrl :: "string \<Rightarrow> string" where
  "replaceUrl content = replace_all ''static/images/blogs/'' ''/images/blogs/'' content"

definition ExampleFixPathsPlugin2 :: plugin where
  "ExampleFixPathsPlugin2 =
     \<lparr>plugin_name = ''ExampleFixPaths'',
      processFrontMatter = (\<lambda>extractedMetadata post.
        case map_of extractedMetadata ''featured_image'' of
          Some (YString path) \<Rightarrow>
            Inr (AList.update ''featured_image'' (YString (replaceUrl path)) extractedMetadata)
        | Some (YNumber n) \<Rightarrow> Inl (Error ''content.replace is not a function'')
        | Some (YList xs) \<Rightarrow> Inl (Error ''content.replace is not a function'')
        | Some YNull \<Rightarrow> Inr (AList.update ''featured_image'' YNull extractedMetadata)
        | Some YUndefined \<Rightarrow> Inr (AList.update ''featured_image'' YNull extractedMetadata)
        | None \<Rightarrow> Inr (AList.update ''featured_image'' YNull extractedMetadata)),
      processHtml = (\<lambda>html imageUrlMap. Inr html),
      processMarkdown = (\<lambda>markdown. Inr (replaceUrl markdown))\<rparr>"

subsection \<open>The earlier version of downloadImage\<close>

text \<open>
  In the earlier version of the exporter (\<^verbatim>\<open>src/lib/index.js\<close>) the constructor sets
  \<^verbatim>\<open>imagesDir\<close> to \<^verbatim>\<open>path.join(baseDir, 'images')\<close>, and \<^verbatim>\<open>downloadImage\<close>, the same
  otherwise, returns \<^verbatim>\<open>path.relative(this.baseDir, imagePath)\<close>. \<^verbatim>\<open>path.relative\<close> resolves
  both paths against the working directory \<open>cwd\<close> (an absolute path), drops the segments
  they share and climbs out of what is left of the first.
\<close>

definition path_resolve :: "string \<Rightarrow> string \<Rightarrow> string list" where
  "path_resolve cwd path =
     (if path \<noteq> [] \<and> hd path = CHR ''/'' then normalizeString False (split (CHR ''/'') path) []
      else normalizeString False (split (CHR ''/'') (cwd @ ''/'' @ path)) [])"

fun drop_common :: "string list \<Rightarrow> string list \<Rightarrow> string list \<times> string list" where
  "drop_common (x # xs) (y # ys) = (if x = y then drop_common xs ys else (x # xs, y # ys))"
| "drop_common xs ys = (xs, ys)"

definition path_relative :: "string \<Rightarrow> string \<Rightarrow> string \<Rightarrow> string" where
  "path_relative cwd from to =
     (case drop_common (path_resolve cwd from) (path_resolve cwd to) of
        (up, down) \<Rightarrow> join_with ''/'' (map (\<lambda>seg. ''..'') up @ down))"

definition downloadImage_v1 ::
  "env \<Rightarrow> string \<Rightarrow> exporter \<Rightarrow> event list \<Rightarrow> string \<Rightarrow> string \<Rightarrow> event list \<times> string option" where
  "downloadImage_v1 E cwd X h imageUrl postSlug =
     (case downloadImage E (X\<lparr>imagesDir := path_join [baseDir X, ''images'']\<rparr>) h imageUrl postSlug of
        (ev, Some stored) \<Rightarrow> (ev, Some (path_relative cwd (baseDir X) stored))
      | (ev, None) \<Rightarrow> (ev, None))"

subsection \<open>A sample environment\<close>

text \<open>
  Stand-ins for the libraries, to evaluate the examples below. They behave as the
  libraries do on the inputs of the examples: sanitize-filename removes the characters
  that are illegal in file names; jsdom reads start tags with their attributes (quoted or
  not), end tags and text, and writes every attribute value in double quotes; an absolute
  URL in normal form is reflected as it is; turndown returns a text without markup as it
  is (the bodies of the sample posts are such texts). js-yaml writes a string plain,
  or in single quotes when it would read as a number or a timestamp otherwise, a number
  in decimal, \<^verbatim>\<open>null\<close> as \<^verbatim>\<open>null\<close>, the empty list as \<^verbatim>\<open>[]\<close> and any other list as a block
  of items, indented by two spaces.
\<close>

definition sample_sanitize :: "string \<Rightarrow> string" where
  "sample_sanitize input =
     filter (\<lambda>c. c \<notin> set [CHR ''/'', CHR ''?'', CHR ''<'', CHR ''>'', BACKSLASH, CHR '':'', CHR ''*'', CHR ''|'', CHR 0x22]) input"

definition unquote :: "string \<Rightarrow> string" where
  "unquote v =
     (if 2 \<le> length v \<and> hd v = CHR 0x22 \<and> last v = CHR 0x22 then butlast (tl v) else v)"

definition parse_attribute :: "string \<Rightarrow> string \<times> string" where
  "parse_attribute a =
     (case split (CHR ''='') a of
        [] \<Rightarrow> (a, [])
      | k # vs \<Rightarrow> (k, unquote (join_with ''='' vs)))"

definition parse_tag :: "string \<Rightarrow> node" where
  "parse_tag t =
     (case t of
        [] \<Rightarrow> Text ''<>''
      | c # name \<Rightarrow>
          if c = CHR ''/'' then EndTag name
          else (case split (CHR '' '') t of
                  [] \<Rightarrow> StartTag t []
                | n # attrs \<Rightarrow> StartTag n (map parse_attribute (filter (\<lambda>a. a \<noteq> []) attrs))))"

definition text_node :: "string \<Rightarrow> node list" where
  "text_node t = (if t = [] then [] else [Text t])"

definition parse_chunk :: "string \<Rightarrow> node list" where
  "parse_chunk chunk =
     (case split (CHR ''>'') chunk of
        [] \<Rightarrow> []
      | t # rest \<Rightarrow> parse_tag t # text_node (join_with ''>'' rest))"

definition sample_parse :: "string \<Rightarrow> document" where
  "sample_parse content =
     (case split (CHR ''<'') content of
        [] \<Rightarrow> []
      | t # chunks \<Rightarrow> text_node t @ concat (map parse_chunk chunks))"

fun serialize_node :: "node \<Rightarrow> string" where
  "serialize_node (StartTag name attrs) =
     ''<'' @ name @ concat (map (\<lambda>(k, v). '' '' @ k @ ''='' @ [CHR 0x22] @ v @ [CHR 0x22]) attrs) @ ''>''"
| "serialize_node (EndTag name) = ''</'' @ name @ ''>''"
| "serialize_node (Text t) = t"

definition sample_innerHTML :: "document \<Rightarrow> string" where
  "sample_innerHTML doc = concat (map serialize_node doc)"

definition reads_as_number_or_timestamp :: "string \<Rightarrow> bool" where
  "reads_as_number_or_timestamp s =
     (s \<noteq> [] \<and> is_digit (hd s) \<and> list_all (\<lambda>c. is_digit c \<or> c \<in> set ''-:T.'') s)"

fun sample_dump_pair :: "string \<Rightarrow> yaml_value \<Rightarrow> string" where
  "sample_dump_pair key (YString s) =
     key @ '': ''
     @ (if s = [] \<or> reads_as_number_or_timestamp s then [CHR 0x27] @ s @ [CHR 0x27] else s) @ [LF]"
| "sample_dump_pair key (YNumber n) =
     key @ '': '' @ (if n < 0 then ''-'' @ show_nat (nat (- n)) else show_nat (nat n)) @ [LF]"
| "sample_dump_pair key (YList xs) =
     (if xs = [] then key @ '': []'' @ [LF]
      else key @ '':'' @ [LF] @ concat (map (\<lambda>x. ''  - '' @ x @ [LF]) xs))"
| "sample_dump_pair key YNull = key @ '': null'' @ [LF]"
| "sample_dump_pair key YUndefined = []"

definition sample_post :: "string \<Rightarrow> string \<Rightarrow> yoast option \<Rightarrow> post" where
  "sample_post s html y =
     \<lparr>slug = s, title_rendered = ''Title'', date = ''2023-01-18T13:31:19'',
      modified = ''2023-01-18T13:32:52'', post_status = ''publish'', content_rendered = html,
      excerpt_rendered = ''Excerpt'', author = 1, post_embedded = None, yoast_head_json = y\<rparr>"

text \<open>
  Three posts for a run; the second has no Yoast data.
\<close>

definition first_post :: post where
  "first_post = sample_post ''first'' ''one'' (Some \<lparr>description = Some ''One''\<rparr>)"

definition second_post :: post where
  "second_post = sample_post ''second'' ''two'' None"

definition third_post :: post where
  "third_post = sample_post ''third'' ''three'' (Some \<lparr>description = Some ''Three''\<rparr>)"

text \<open>
  A plugin a user has added in the working directory: it points the images under
  \<^verbatim>\<open>/images/\<close> to a content delivery network, with
  \<^verbatim>\<open>markdown.replace(/\/images\//g, 'https://cdn.example.com/images/')\<close>.
\<close>

definition CdnPlugin :: plugin where
  "CdnPlugin =
     \<lparr>plugin_name = ''Cdn'',
      processFrontMatter = (\<lambda>extractedMetadata post. Inr extractedMetadata),
      processHtml = (\<lambda>html imageUrlMap. Inr html),
      processMarkdown = (\<lambda>markdown. Inr (replace_all ''/images/'' ''https://cdn.example.com/images/'' markdown))\<rparr>"

text \<open>
  In the sample environment every request is answered, one image is missing, and the
  disk never fails.
\<close>

definition sample_env :: env where
  "sample_env =
     \<lparr>fetch = (\<lambda>h url. if url = ''http://x/missing.png'' then Inr \<lparr>status = 404, body = []\<rparr>
                       else Inr \<lparr>status = 200, body = ''bytes''\<rparr>),
      fs_mkdir = (\<lambda>h path. None),
      fs_writeFile = (\<lambda>h path. None),
      sanitize = sample_sanitize,
      jsdom_parse = sample_parse,
      jsdom_innerHTML = sample_innerHTML,
      reflect_url = (\<lambda>v. v),
      detectLang = (\<lambda>code. if prefix ''print('' code then Lang_Python else Lang_Unknown),
      turndown = (\<lambda>rule keep html. Inr html),
      dump_pair = sample_dump_pair,
      allPlugins = [CdnPlugin, ExampleFixPathsPlugin2, YoastPlugin],
      fetchPosts =
        Posts [first_post, second_post, third_post]\<rparr>"

text \<open>
  A site that answers the first request for a URL and rejects every later request for
  the same URL.
\<close>

definition flaky_env :: env where
  "flaky_env =
     sample_env\<lparr>fetch := (\<lambda>h url. if Fetch url \<in> set h then Inl (Error ''fetch failed'')
                                  else Inr \<lparr>status = 200, body = ''bytes''\<rparr>)\<rparr>"

text \<open>The exporter the command line builds by default, without and with the plugin Yoast.\<close>

definition sample_exporter :: exporter where
  "sample_exporter =
     \<lparr>wpUrl = ''https://example.com'', baseDir = ''blog_export'', imagesDir = ''blog_export/images'',
      codeClasses = [''EnlighterJSRAW''], preserveTags = [''iframe'', ''script''], plugins = [],
      loadedPlugins = []\<rparr>"

definition yoast_exporter :: exporter where
  "yoast_exporter = sample_exporter\<lparr>plugins := [''Yoast'']\<rparr>"

text \<open>
  The exporter after \<^verbatim>\<open>init\<close> has loaded Yoast; an exporter configured with the plugins
  \<^verbatim>\<open>ExampleFixPaths,Cdn\<close>, before and after \<^verbatim>\<open>init\<close>; one with \<^verbatim>\<open>ExampleFixPaths\<close> alone,
  after \<^verbatim>\<open>init\<close>; and the inputs of the examples: a post with a featured image, a post
  whose text is a path, a fragment with one image, and one with the same image twice,
  once inside a link to it.
\<close>

definition loaded_yoast_exporter :: exporter where
  "loaded_yoast_exporter = yoast_exporter\<lparr>loadedPlugins := [YoastPlugin]\<rparr>"

definition fixpaths_cdn_exporter :: exporter where
  "fixpaths_cdn_exporter = sample_exporter\<lparr>plugins := [''ExampleFixPaths'', ''Cdn'']\<rparr>"

definition loaded_fixpaths_cdn_exporter :: exporter where
  "loaded_fixpaths_cdn_exporter = fixpaths_cdn_exporter\<lparr>loadedPlugins := [ExampleFixPathsPlugin2, CdnPlugin]\<rparr>"

definition loaded_fixpaths_exporter :: exporter where
  "loaded_fixpaths_exporter =
     sample_exporter\<lparr>plugins := [''ExampleFixPaths''], loadedPlugins := [ExampleFixPathsPlugin2]\<rparr>"

definition featured_post :: post where
  "featured_post =
     (sample_post ''cover'' ''text'' None)
       \<lparr>post_embedded := Some \<lparr>wp_term = None, emb_author = Some [Some ''David''],
                                wp_featuredmedia = Some [''http://x/cover.png'']\<rparr>\<rparr>"

definition paths_post :: post where
  "paths_post = sample_post ''paths'' ''static/images/blogs/x.png'' None"

definition one_image :: string where
  "one_image = ''<img src='' @ [CHR 0x22] @ ''http://x/pic.png'' @ [CHR 0x22] @ ''>''"

definition linked_images :: string where
  "linked_images =
     ''<a href='' @ [CHR 0x22] @ ''http://x/pic.png'' @ [CHR 0x22] @ ''>'' @ one_image @ ''</a>'' @ one_image"



definition number_node :: dom_element where
  "number_node = \<lparr>className = ''EnlighterJSRAW'', textContent = '' 42 ''\<rparr>"

section \<open>Properties\<close>

subsection \<open>The code-block rule\<close>

lemma indexOf_lower: "- 1 \<le> indexOf s pat"
  by (induction s) (auto simp: Let_def)

lemma indexOf_found: "indexOf s pat \<noteq> - 1 \<longleftrightarrow> sublist pat s"
proof (induction s)
  case Nil
  then show ?case by simp
next
  case (Cons c s)
  have "- 1 \<le> indexOf s pat" by (rule indexOf_lower)
  then have "indexOf s pat + 1 \<noteq> - 1" by arith
  with Cons show ?case by (auto simp: Let_def sublist_Cons_right)
qed

lemma codeBlocks_filter_iff:
  "codeBlocks_filter X node \<longleftrightarrow> (\<exists>cls \<in> set (codeClasses X). sublist cls (className node))"
  by (simp add: codeBlocks_filter_def list_ex_iff indexOf_found)

text \<open>
  Claim C6. The code-block rule applies to a node only if the class attribute of the
  node contains one of the configured marker classes as a substring. With no marker
  class configured it applies to no node, and a node whose class attribute contains none
  of the marker classes is never converted by it, whatever its text.
\<close>

theorem codeBlocks_only_marker_classes:
  "(codeBlocks E X node \<noteq> None \<longrightarrow> (\<exists>cls \<in> set (codeClasses X). sublist cls (className node)))
   \<and> (codeClasses X = [] \<longrightarrow> codeBlocks E X node = None)
   \<and> ((\<forall>cls \<in> set (codeClasses X). \<not> sublist cls (className node)) \<longrightarrow> codeBlocks E X node = None)"
  by (auto simp: codeBlocks_def codeBlocks_filter_iff)

theorem codeBlocks_only_marker_classes_witness:
  "codeBlocks sample_env sample_exporter \<lparr>className = ''EnlighterJSRAW'', textContent = ''x''\<rparr> \<noteq> None
   \<and> (\<exists>cls \<in> set (codeClasses sample_exporter). sublist cls ''EnlighterJSRAW'')
   \<and> codeClasses (sample_exporter\<lparr>codeClasses := []\<rparr>) = []
   \<and> codeBlocks sample_env (sample_exporter\<lparr>codeClasses := []\<rparr>)
        \<lparr>className = ''EnlighterJSRAW'', textContent = ''x''\<rparr> = None
   \<and> codeClasses sample_exporter = [''EnlighterJSRAW'']
   \<and> \<not> sublist ''EnlighterJSRAW'' ''wp-block-code''
   \<and> codeBlocks sample_env sample_exporter \<lparr>className = ''wp-block-code'', textContent = ''x''\<rparr> = None"
proof -
  have a: "codeBlocks sample_env sample_exporter \<lparr>className = ''EnlighterJSRAW'', textContent = ''x''\<rparr> \<noteq> None"
    by (simp add: codeBlocks_def codeBlocks_filter_def sample_exporter_def)
  have b: "codeClasses (sample_exporter\<lparr>codeClasses := []\<rparr>) = []" by simp
  have c: "codeClasses sample_exporter = [''EnlighterJSRAW'']"
    by (simp add: sample_exporter_def)
  have d: "\<not> sublist ''EnlighterJSRAW'' ''wp-block-code''"
    by (simp add: sublist_Cons_right)
  show ?thesis
    using a b c d
      codeBlocks_only_marker_classes [of sample_env sample_exporter
        "\<lparr>className = ''EnlighterJSRAW'', textContent = ''x''\<rparr>"]
      codeBlocks_only_marker_classes [of sample_env "sample_exporter\<lparr>codeClasses := []\<rparr>"
        "\<lparr>className = ''EnlighterJSRAW'', textContent = ''x''\<rparr>"]
      codeBlocks_only_marker_classes [of sample_env sample_exporter
        "\<lparr>className = ''wp-block-code'', textContent = ''x''\<rparr>"]
    by simp
qed






lemma isJson_iff: "isJson code \<longleftrightarrow> JSON_parse code = Inr ()"
  by (simp add: isJson_def JSON_parse_def)



text \<open>The recogniser on some texts: nested values and a number pass; texts that are not JSON fail.\<close>

lemma JSON_parse_examples:
  "JSON_parse ''[1, {}, [true, null]]'' = Inr ()
   \<and> JSON_parse ''-0.5e+10'' = Inr ()
   \<and> JSON_parse [] \<noteq> Inr ()
   \<and> JSON_parse ''[1,]'' \<noteq> Inr ()
   \<and> JSON_parse ''01'' \<noteq> Inr ()
   \<and> JSON_parse ''nul'' \<noteq> Inr ()
   \<and> JSON_parse ''1 2'' \<noteq> Inr ()
   \<and> JSON_parse ''{a: 1}'' \<noteq> Inr ()"
  by code_simp

text \<open>
  Claim C10. The JSON probe accepts every JSON text, not only objects and arrays: a bare
  number, a quoted string, true, false and null parse, and whenever the detected language
  has no tag and the normalised text of a converted node parses as JSON, the fence is
  tagged json.
\<close>

theorem json_probe_accepts_any_value:
  "JSON_parse ''42'' = Inr ()
   \<and> JSON_parse ([CHR 0x22] @ ''hi'' @ [CHR 0x22]) = Inr ()
   \<and> JSON_parse ''true'' = Inr ()
   \<and> JSON_parse ''false'' = Inr ()
   \<and> JSON_parse ''null'' = Inr ()
   \<and> (\<forall>E X node.
        codeBlocks_filter X node
        \<and> languageMap (detectLang E (normalize_code (textContent node))) = []
        \<and> JSON_parse (normalize_code (textContent node)) = Inr ()
        \<longrightarrow> codeBlocks E X node =
              Some (''```json'' @ [LF] @ normalize_code (textContent node) @ [LF] @ ''```'' @ [LF, LF]))"
proof -
  have lits: "JSON_parse ''42'' = Inr ()" "JSON_parse ([CHR 0x22] @ ''hi'' @ [CHR 0x22]) = Inr ()"
    "JSON_parse ''true'' = Inr ()" "JSON_parse ''false'' = Inr ()" "JSON_parse ''null'' = Inr ()"
    by (simp_all add: JSON_parse_def json_value_start_def json_after_def json_final_def json_ws_def is_digit_def)
  have "codeBlocks E X node =
          Some (''```json'' @ [LF] @ normalize_code (textContent node) @ [LF] @ ''```'' @ [LF, LF])"
    if "codeBlocks_filter X node"
      and "languageMap (detectLang E (normalize_code (textContent node))) = []"
      and "JSON_parse (normalize_code (textContent node)) = Inr ()" for E X node
    using that by (simp add: codeBlocks_def codeBlocks_replacement_def Let_def truthy_def isJson_iff)
  with lits show ?thesis by blast
qed

theorem json_probe_accepts_any_value_witness:
  "codeBlocks_filter sample_exporter number_node
   \<and> languageMap (detectLang sample_env (normalize_code (textContent number_node))) = []
   \<and> JSON_parse (normalize_code (textContent number_node)) = Inr ()
   \<and> codeBlocks sample_env sample_exporter number_node = Some (''```json'' @ [LF] @ ''42'' @ [LF] @ ''```'' @ [LF, LF])"
proof -
  have n: "normalize_code (textContent number_node) = ''42''"
    by (simp add: normalize_code_def number_node_def trim_def is_whitespace_def)
  have f: "codeBlocks_filter sample_exporter number_node"
    by (simp add: codeBlocks_filter_def sample_exporter_def number_node_def)
  have d: "languageMap (detectLang sample_env (normalize_code (textContent number_node))) = []"
    unfolding n by (simp add: sample_env_def)
  have j: "JSON_parse (normalize_code (textContent number_node)) = Inr ()"
    unfolding n using json_probe_accepts_any_value by blast
  from json_probe_accepts_any_value f d j
  have "codeBlocks sample_env sample_exporter number_node =
          Some (''```json'' @ [LF] @ normalize_code (textContent number_node) @ [LF] @ ''```'' @ [LF, LF])"
    by blast
  with f d j show ?thesis unfolding n by simp
qed

subsection \<open>Traces and paths\<close>

lemma fetches_append [simp]: "fetches (a @ b) = fetches a @ fetches b"
  by (simp add: fetches_def)

lemma documents_append [simp]: "documents (a @ b) = documents a @ documents b"
  by (simp add: documents_def)

lemma fetches_Nil [simp]: "fetches [] = []"
  by (simp add: fetches_def)

lemma documents_Nil [simp]: "documents [] = []"
  by (simp add: documents_def)

lemma fetches_Cons:
  "fetches (ev # evs) = (case ev of Fetch url \<Rightarrow> [url] | _ \<Rightarrow> []) @ fetches evs"
  by (simp add: fetches_def)

lemma documents_Cons:
  "documents (ev # evs) = (case ev of WriteText path text \<Rightarrow> [(path, text)] | _ \<Rightarrow> []) @ documents evs"
  by (simp add: documents_def)

lemma image_files_append [simp]: "image_files (a @ b) = image_files a @ image_files b"
  by (simp add: image_files_def)

lemma image_files_Nil [simp]: "image_files [] = []"
  by (simp add: image_files_def)

lemma image_files_Cons:
  "image_files (ev # evs) =
     (case ev of WriteBuffer path bytes \<Rightarrow> [(path, bytes)] | _ \<Rightarrow> []) @ image_files evs"
  by (simp add: image_files_def)

lemma path_normalize_nonempty: "path_normalize p \<noteq> []"
  by (simp add: path_normalize_def Let_def)

lemma path_join_nonempty: "path_join args \<noteq> []"
  by (simp add: path_join_def Let_def path_normalize_nonempty)

subsection \<open>downloadImage\<close>

lemma downloadImage_fetches: "fetches (fst (downloadImage E X h imageUrl postSlug)) = [imageUrl]"
  by (simp add: downloadImage_def fetches_def download_warning_def Let_def
           split: sum.splits option.splits)

lemma downloadImage_documents: "documents (fst (downloadImage E X h imageUrl postSlug)) = []"
  by (simp add: downloadImage_def documents_def download_warning_def Let_def
           split: sum.splits option.splits)

lemma downloadImage_Some:
  assumes "snd (downloadImage E X h imageUrl postSlug) = Some path"
  shows "path = localPath E X imageUrl postSlug"
    and "\<exists>bytes. fst (downloadImage E X h imageUrl postSlug) =
               [Fetch imageUrl, Mkdir (path_join [imagesDir X, sanitize E postSlug]),
                WriteBuffer path bytes]"
  using assms
  by (auto simp: downloadImage_def localPath_def Let_def split: sum.splits option.splits if_splits)

lemma downloadImage_None:
  "snd (downloadImage E X h imageUrl postSlug) = None \<Longrightarrow>
   image_files (fst (downloadImage E X h imageUrl postSlug)) = []"
  by (auto simp: downloadImage_def image_files_def download_warning_def Let_def
           split: sum.splits option.splits if_splits)

lemma downloadImage_nonempty: "snd (downloadImage E X h imageUrl postSlug) \<noteq> Some []"
  using downloadImage_Some(1) [of E X h imageUrl postSlug "[]"]
  by (auto simp: localPath_def path_join_nonempty [THEN not_sym])

lemma resolve_Some:
  "resolve E X postSlug h imageUrl = Some path \<longleftrightarrow>
     imageUrl \<noteq> [] \<and> snd (downloadImage E X h imageUrl postSlug) = Some path"
  using downloadImage_Some(1) [of E X h imageUrl postSlug]
  by (auto simp: resolve_def truthy_def localPath_def path_join_nonempty path_join_nonempty [THEN not_sym]
           split: option.splits)

lemma resolve_path:
  "resolve E X postSlug h imageUrl = Some path \<Longrightarrow> path = localPath E X imageUrl postSlug"
  using downloadImage_Some(1) [of E X h imageUrl postSlug path] by (simp add: resolve_Some)

lemma resolve_nonempty: "resolve E X postSlug h imageUrl \<noteq> Some []"
  by (simp add: resolve_Some downloadImage_nonempty)

text \<open>
  For comparison, the earlier version on the input of the counterexample of claim C2
  below: there the result is relative to the base directory.
\<close>

lemma downloadImage_v1_sample:
  "downloadImage_v1 sample_env ''/home/me'' sample_exporter [] ''http://x/pic.png'' ''post'' =
     ([Fetch ''http://x/pic.png'', Mkdir ''blog_export/images/post'',
       WriteBuffer ''blog_export/images/post/pic.png'' ''bytes''],
      Some ''images/post/pic.png'')
   \<and> path_join [baseDir sample_exporter, ''images/post/pic.png''] = ''blog_export/images/post/pic.png''"
  by code_simp

subsection \<open>The first pass of processImages\<close>

text \<open>
  One step of the first loop, in terms of \<open>resolve\<close>: the events are those of the download,
  if there is one; the element, the list and the mapping change when it succeeds.
\<close>

lemma processImg_eq:
  "processImg E X postSlug h n d m =
     (let u = url_property E ''src'' n in
      (if truthy u then fst (downloadImage E X h u postSlug) else [],
       case resolve E X postSlug h u of Some p \<Rightarrow> set_property ''src'' p n | None \<Rightarrow> n,
       case resolve E X postSlug h u of Some p \<Rightarrow> d @ [p] | None \<Rightarrow> d,
       case resolve E X postSlug h u of Some p \<Rightarrow> AList.update u p m | None \<Rightarrow> m))"
  by (cases "downloadImage E X h (url_property E ''src'' n) postSlug")
     (auto simp: processImg_def resolve_def Let_def split: option.splits)

lemma processImg_image_files:
  "map fst (image_files (fst (processImg E X postSlug h n d m))) =
     (case resolve E X postSlug h (url_property E ''src'' n) of Some p \<Rightarrow> [p] | None \<Rightarrow> [])"
proof (cases "resolve E X postSlug h (url_property E ''src'' n)")
  case None
  then have "truthy (url_property E ''src'' n) \<Longrightarrow>
      snd (downloadImage E X h (url_property E ''src'' n) postSlug) = None"
    using downloadImage_nonempty [of E X h "url_property E ''src'' n" postSlug]
    by (auto simp: resolve_def truthy_def split: option.splits if_splits)
  with None show ?thesis
    by (auto simp: processImg_eq Let_def downloadImage_None)
next
  case (Some p)
  then have t: "truthy (url_property E ''src'' n)"
    and d: "snd (downloadImage E X h (url_property E ''src'' n) postSlug) = Some p"
    by (simp_all add: resolve_Some truthy_def)
  from downloadImage_Some(2) [OF d] obtain bytes where
    "fst (downloadImage E X h (url_property E ''src'' n) postSlug) =
       [Fetch (url_property E ''src'' n), Mkdir (path_join [imagesDir X, sanitize E postSlug]),
        WriteBuffer p bytes]"
    by blast
  with Some t show ?thesis by (simp add: processImg_eq Let_def image_files_def)
qed

text \<open>
  The first loop over a list followed by another: the second part is processed after
  the events of the first. In particular, over a list that ends with the node \<open>n\<close>.
\<close>

lemma firstPass_append:
  "firstPass E X postSlug h (xs @ ys) d m =
     (case firstPass E X postSlug h xs d m of
        (ev1, xs', d1, m1) \<Rightarrow>
          (case firstPass E X postSlug (h @ ev1) ys d1 m1 of
             (ev2, ys', d2, m2) \<Rightarrow> (ev1 @ ev2, xs' @ ys', d2, m2)))"
  by (induction xs arbitrary: h d m) (simp_all add: case_prod_beta)

lemma firstPass_length: "length (fst (snd (firstPass E X postSlug h ns d m))) = length ns"
  by (induction ns arbitrary: h d m) (simp_all add: case_prod_beta)

lemma firstPass_snoc:
  "firstPass E X postSlug h (xs @ [n]) d m =
     (case firstPass E X postSlug h xs d m of
        (ev1, xs', d1, m1) \<Rightarrow>
          if is_element ''img'' n then
            (case processImg E X postSlug (h @ ev1) n d1 m1 of
               (ev, n', d', m') \<Rightarrow> (ev1 @ ev, xs' @ [n'], d', m'))
          else (ev1, xs' @ [n], d1, m1))"
  by (simp add: firstPass_append case_prod_beta)

lemma firstPass_fetches:
  "fetches (fst (firstPass E X postSlug h ns d m)) =
     map (url_property E ''src'')
       (filter (\<lambda>n. is_element ''img'' n \<and> truthy (url_property E ''src'' n)) ns)"
  by (induction ns arbitrary: h d m)
     (simp_all add: case_prod_beta processImg_eq Let_def downloadImage_fetches)

lemma firstPass_documents: "documents (fst (firstPass E X postSlug h ns d m)) = []"
  by (induction ns arbitrary: h d m)
     (simp_all add: case_prod_beta processImg_eq Let_def downloadImage_documents)

lemma firstPass_no_images:
  "\<forall>n \<in> set ns. \<not> is_element ''img'' n \<Longrightarrow> firstPass E X postSlug h ns d m = ([], ns, d, m)"
  by (induction ns) auto

text \<open>
  The node at position \<open>i\<close> after the first loop: an \<^verbatim>\<open>img\<close> element is rewritten exactly
  when the download made for it, after the loop has gone through the nodes before it,
  succeeds.
\<close>

lemma firstPass_nth:
  assumes "i < length ns"
  shows "fst (snd (firstPass E X postSlug h ns d m)) ! i =
     (if is_element ''img'' (ns ! i) then
        (case resolve E X postSlug (h @ fst (firstPass E X postSlug h (take i ns) d m))
                (url_property E ''src'' (ns ! i)) of
           Some p \<Rightarrow> set_property ''src'' p (ns ! i) | None \<Rightarrow> ns ! i)
      else ns ! i)"
proof -
  have ns: "ns = (take i ns @ [ns ! i]) @ drop (Suc i) ns"
    using assms by (simp add: id_take_nth_drop [symmetric])
  have len: "length (fst (snd (firstPass E X postSlug h (take i ns) d m))) = i"
    using assms by (simp add: firstPass_length)
  have "fst (snd (firstPass E X postSlug h ns d m)) ! i =
        fst (snd (firstPass E X postSlug h (take i ns @ [ns ! i]) d m)) ! i"
    by (subst ns, subst firstPass_append)
       (simp add: case_prod_beta nth_append firstPass_length assms)
  also have "\<dots> = (if is_element ''img'' (ns ! i) then
        (case resolve E X postSlug (h @ fst (firstPass E X postSlug h (take i ns) d m))
                (url_property E ''src'' (ns ! i)) of
           Some p \<Rightarrow> set_property ''src'' p (ns ! i) | None \<Rightarrow> ns ! i)
      else ns ! i)"
    using len by (simp add: firstPass_snoc case_prod_beta processImg_eq Let_def nth_append)
  finally show ?thesis .
qed

text \<open>A path recorded for its URL stays recorded for it.\<close>

lemma firstPass_map_keeps:
  "map_of m u = Some (localPath E X u postSlug) \<Longrightarrow>
   map_of (snd (snd (snd (firstPass E X postSlug h ns d m)))) u = Some (localPath E X u postSlug)"
proof (induction ns arbitrary: h d m)
  case Nil
  then show ?case by simp
next
  case (Cons n ns)
  show ?case
  proof (cases "is_element ''img'' n")
    case False
    then show ?thesis using Cons.IH [OF Cons.prems] by (simp add: case_prod_beta)
  next
    case True
    let ?u = "url_property E ''src'' n"
    show ?thesis
    proof (cases "resolve E X postSlug h ?u")
      case None
      then show ?thesis using True Cons.IH [OF Cons.prems]
        by (simp add: case_prod_beta processImg_eq Let_def)
    next
      case (Some p)
      then have p: "p = localPath E X ?u postSlug" by (rule resolve_path)
      have "map_of (AList.update ?u p m) u = Some (localPath E X u postSlug)"
        using Cons.prems p by (simp add: update_conv')
      from Cons.IH [OF this] show ?thesis using True Some
        by (simp add: case_prod_beta processImg_eq Let_def)
    qed
  qed
qed

text \<open>
  Every entry of the mapping after the first loop was there before, or it is the path
  of a download the loop made for an \<^verbatim>\<open>img\<close> element with that URL, and that download
  succeeded.
\<close>

lemma firstPass_map_sound:
  assumes "map_of (snd (snd (snd (firstPass E X postSlug h ns d m)))) u = Some p"
  shows "map_of m u = Some p
       \<or> (\<exists>i < length ns. is_element ''img'' (ns ! i) \<and> url_property E ''src'' (ns ! i) = u
            \<and> resolve E X postSlug (h @ fst (firstPass E X postSlug h (take i ns) d m)) u = Some p)"
  using assms
proof (induction ns rule: rev_induct)
  case Nil
  then show ?case by simp
next
  case (snoc n ns)
  let ?r = "firstPass E X postSlug h ns d m"
  let ?m1 = "snd (snd (snd ?r))"
  let ?u = "url_property E ''src'' n"
  have old: ?case if "map_of ?m1 u = Some p"
  proof -
    from snoc.IH [OF that] show ?thesis
    proof
      assume "map_of m u = Some p"
      then show ?thesis by simp
    next
      assume "\<exists>i < length ns. is_element ''img'' (ns ! i) \<and> url_property E ''src'' (ns ! i) = u
            \<and> resolve E X postSlug (h @ fst (firstPass E X postSlug h (take i ns) d m)) u = Some p"
      then obtain i where i: "i < length ns" "is_element ''img'' (ns ! i)"
          "url_property E ''src'' (ns ! i) = u"
          "resolve E X postSlug (h @ fst (firstPass E X postSlug h (take i ns) d m)) u = Some p"
        by blast
      have "i < length (ns @ [n]) \<and> is_element ''img'' ((ns @ [n]) ! i)
            \<and> url_property E ''src'' ((ns @ [n]) ! i) = u
            \<and> resolve E X postSlug (h @ fst (firstPass E X postSlug h (take i (ns @ [n])) d m)) u = Some p"
        using i by (simp add: nth_append)
      then show ?thesis by blast
    qed
  qed
  show ?case
  proof (cases "is_element ''img'' n")
    case False
    with snoc.prems have "map_of ?m1 u = Some p"
      by (simp add: firstPass_snoc case_prod_beta)
    then show ?thesis by (rule old)
  next
    case True
    show ?thesis
    proof (cases "resolve E X postSlug (h @ fst ?r) ?u")
      case None
      with True snoc.prems have "map_of ?m1 u = Some p"
        by (simp add: firstPass_snoc case_prod_beta processImg_eq Let_def)
      then show ?thesis by (rule old)
    next
      case (Some q)
      with True snoc.prems have upd: "map_of (AList.update ?u q ?m1) u = Some p"
        by (simp add: firstPass_snoc case_prod_beta processImg_eq Let_def)
      show ?thesis
      proof (cases "u = ?u")
        case False
        with upd have "map_of ?m1 u = Some p" by (simp add: update_conv')
        then show ?thesis by (rule old)
      next
        case u: True
        with upd have "q = p" by (simp add: update_conv')
        with Some u True have
          "length ns < length (ns @ [n]) \<and> is_element ''img'' ((ns @ [n]) ! length ns)
            \<and> url_property E ''src'' ((ns @ [n]) ! length ns) = u
            \<and> resolve E X postSlug (h @ fst (firstPass E X postSlug h (take (length ns) (ns @ [n])) d m)) u
                = Some p"
          by simp
        then show ?thesis by blast
      qed
    qed
  qed
qed

text \<open>A download that succeeds for the node at position \<open>i\<close> records its path.\<close>

lemma firstPass_nth_map:
  assumes "i < length ns" and "is_element ''img'' (ns ! i)"
      and "resolve E X postSlug (h @ fst (firstPass E X postSlug h (take i ns) d m))
             (url_property E ''src'' (ns ! i)) = Some p"
  shows "map_of (snd (snd (snd (firstPass E X postSlug h ns d m)))) (url_property E ''src'' (ns ! i)) = Some p"
proof -
  let ?u = "url_property E ''src'' (ns ! i)"
  let ?r = "firstPass E X postSlug h (take i ns) d m"
  have ns: "ns = (take i ns @ [ns ! i]) @ drop (Suc i) ns"
    using assms(1) by (simp add: id_take_nth_drop [symmetric])
  from assms(3) have p: "p = localPath E X ?u postSlug" by (rule resolve_path)
  have 1: "map_of (snd (snd (snd (firstPass E X postSlug h (take i ns @ [ns ! i]) d m)))) ?u
             = Some (localPath E X ?u postSlug)"
    using assms(2,3) p by (simp add: firstPass_snoc case_prod_beta processImg_eq Let_def update_conv')
  have "map_of (snd (snd (snd (firstPass E X postSlug h ((take i ns @ [ns ! i]) @ drop (Suc i) ns) d m)))) ?u
             = Some (localPath E X ?u postSlug)"
    by (subst firstPass_append) (simp add: case_prod_beta firstPass_map_keeps [OF 1])
  with ns p show ?thesis by simp
qed

text \<open>The events of the download made for the node at position \<open>i\<close> are events of the loop.\<close>

lemma firstPass_nth_events:
  assumes "i < length ns" and "is_element ''img'' (ns ! i)"
      and "truthy (url_property E ''src'' (ns ! i))"
  shows "set (fst (downloadImage E X (h @ fst (firstPass E X postSlug h (take i ns) d m))
                     (url_property E ''src'' (ns ! i)) postSlug))
           \<subseteq> set (fst (firstPass E X postSlug h ns d m))"
proof -
  have ns: "ns = (take i ns @ [ns ! i]) @ drop (Suc i) ns"
    using assms(1) by (simp add: id_take_nth_drop [symmetric])
  have "set (fst (downloadImage E X (h @ fst (firstPass E X postSlug h (take i ns) d m))
                     (url_property E ''src'' (ns ! i)) postSlug))
           \<subseteq> set (fst (firstPass E X postSlug h ((take i ns @ [ns ! i]) @ drop (Suc i) ns) d m))"
    using assms(2,3)
    by (subst firstPass_append) (auto simp: firstPass_snoc case_prod_beta processImg_eq Let_def)
  with ns show ?thesis by simp
qed

text \<open>
  The files the loop writes, and the list \<^verbatim>\<open>downloadedImages\<close>: one entry for each
  position whose download succeeds, in document order.
\<close>

lemma firstPass_image_files:
  "map fst (image_files (fst (firstPass E X postSlug h ns d m))) =
     concat (map (\<lambda>i. if is_element ''img'' (ns ! i) then
                        (case resolve E X postSlug (h @ fst (firstPass E X postSlug h (take i ns) d m))
                                (url_property E ''src'' (ns ! i)) of
                           Some p \<Rightarrow> [p] | None \<Rightarrow> [])
                      else []) [0..<length ns])"
proof (induction ns rule: rev_induct)
  case Nil
  then show ?case by simp
next
  case (snoc n ns)
  let ?f = "\<lambda>ns i. if is_element ''img'' (ns ! i) then
                        (case resolve E X postSlug (h @ fst (firstPass E X postSlug h (take i ns) d m))
                                (url_property E ''src'' (ns ! i)) of
                           Some p \<Rightarrow> [p] | None \<Rightarrow> [])
                      else []"
  have same: "map (?f (ns @ [n])) [0..<length ns] = map (?f ns) [0..<length ns]"
    by (rule map_cong) (simp_all add: nth_append)
  have last: "?f (ns @ [n]) (length ns) =
      (if is_element ''img'' n then
         map fst (image_files (fst (processImg E X postSlug (h @ fst (firstPass E X postSlug h ns d m)) n
                                     (fst (snd (snd (firstPass E X postSlug h ns d m))))
                                     (snd (snd (snd (firstPass E X postSlug h ns d m)))))))
       else [])"
    by (simp add: processImg_image_files)
  have "map fst (image_files (fst (firstPass E X postSlug h (ns @ [n]) d m))) =
        map fst (image_files (fst (firstPass E X postSlug h ns d m))) @ ?f (ns @ [n]) (length ns)"
    unfolding last by (simp add: firstPass_snoc case_prod_beta)
  also have "\<dots> = concat (map (?f ns) [0..<length ns]) @ ?f (ns @ [n]) (length ns)"
    using snoc.IH by simp
  also have "\<dots> = concat (map (?f (ns @ [n])) [0..<length ns]) @ ?f (ns @ [n]) (length ns)"
    unfolding same ..
  also have "\<dots> = concat (map (?f (ns @ [n])) [0..<length (ns @ [n])])"
    by simp
  finally show ?case .
qed

lemma firstPass_downloaded:
  "fst (snd (snd (firstPass E X postSlug h ns d m))) =
     d @ map fst (image_files (fst (firstPass E X postSlug h ns d m)))"
proof (induction ns arbitrary: h d m)
  case Nil
  then show ?case by simp
next
  case (Cons n ns)
  show ?case
  proof (cases "is_element ''img'' n")
    case False
    then show ?thesis using Cons [of h d m] by (simp add: case_prod_beta)
  next
    case True
    have pi: "fst (snd (snd (processImg E X postSlug h n d m))) =
                d @ map fst (image_files (fst (processImg E X postSlug h n d m)))"
      unfolding processImg_image_files by (simp add: processImg_eq Let_def split: option.splits)
    show ?thesis
      using True Cons [of "h @ fst (processImg E X postSlug h n d m)"
                          "fst (snd (snd (processImg E X postSlug h n d m)))"
                          "snd (snd (snd (processImg E X postSlug h n d m)))"]
      by (simp add: case_prod_beta pi)
  qed
qed

subsection \<open>The second pass, and processImages\<close>

lemma secondPass_nodes:
  "snd (secondPass E m ns) =
     map (\<lambda>n. if is_element ''a'' n \<and> truthy (url_property E ''href'' n)
               then (case map_of m (url_property E ''href'' n) of
                       Some p \<Rightarrow> set_property ''href'' p n | None \<Rightarrow> n)
               else n) ns"
  by (induction ns) (auto simp: processLink_def Let_def case_prod_beta split: option.splits)

lemma secondPass_fetches: "fetches (fst (secondPass E m ns)) = []"
  by (induction ns) (auto simp: processLink_def Let_def fetches_def case_prod_beta split: option.splits)

lemma secondPass_image_files: "image_files (fst (secondPass E m ns)) = []"
  by (induction ns)
     (auto simp: processLink_def Let_def image_files_Cons case_prod_beta split: option.splits)

lemma secondPass_documents: "documents (fst (secondPass E m ns)) = []"
  by (induction ns)
     (auto simp: processLink_def Let_def documents_Cons case_prod_beta split: option.splits)

lemma secondPass_empty: "secondPass E [] ns = ([], ns)"
  by (induction ns) (auto simp: processLink_def Let_def)

lemma processImages_eq:
  "processImages E X h content postSlug =
     (fst (firstPass E X postSlug h (jsdom_parse E content) [] [])
        @ fst (secondPass E (snd (snd (snd (firstPass E X postSlug h (jsdom_parse E content) [] []))))
                 (fst (snd (firstPass E X postSlug h (jsdom_parse E content) [] []))))
        @ [ConsoleLog (''Downloaded ''
             @ show_nat (length (fst (snd (snd (firstPass E X postSlug h (jsdom_parse E content) [] [])))))
             @ '' images for post: '' @ postSlug)],
      snd (snd (snd (firstPass E X postSlug h (jsdom_parse E content) [] []))),
      jsdom_innerHTML E (rewrittenDocument E X h content postSlug))"
  by (simp add: processImages_def rewrittenDocument_def Let_def case_prod_beta)

text \<open>The result depends on the fragment only through the document jsdom parses it to.\<close>

lemma processImages_same_document:
  "jsdom_parse E content1 = jsdom_parse E content2 \<Longrightarrow>
   snd (processImages E X h content1 postSlug) = snd (processImages E X h content2 postSlug)"
  by (simp add: processImages_def)

lemma processImages_documents: "documents (fst (processImages E X h content postSlug)) = []"
  by (simp add: processImages_eq firstPass_documents secondPass_documents documents_Cons)

lemma is_element_set_property [simp]: "is_element t (set_property a v n) = is_element t n"
  by (cases n) auto

lemma img_not_a: "is_element ''img'' n \<Longrightarrow> \<not> is_element ''a'' n"
  by (cases n) auto

lemma rewrittenDocument_length:
  "length (rewrittenDocument E X h content postSlug) = length (jsdom_parse E content)"
  by (simp add: rewrittenDocument_def case_prod_beta secondPass_nodes firstPass_length)

text \<open>
  The node at position \<open>i\<close> of the document that is serialised: an \<^verbatim>\<open>img\<close> element is
  rewritten when its own download succeeds, an \<^verbatim>\<open>a\<close> element when its target is in the
  mapping, and nothing else changes.
\<close>

lemma rewrittenDocument_nth:
  assumes "i < length (jsdom_parse E content)"
  shows "rewrittenDocument E X h content postSlug ! i =
     (if is_element ''img'' (jsdom_parse E content ! i) then
        (case ownDownload E X h content postSlug i of
           Some p \<Rightarrow> set_property ''src'' p (jsdom_parse E content ! i)
         | None \<Rightarrow> jsdom_parse E content ! i)
      else if is_element ''a'' (jsdom_parse E content ! i)
              \<and> truthy (url_property E ''href'' (jsdom_parse E content ! i)) then
        (case map_of (fst (snd (processImages E X h content postSlug)))
                (url_property E ''href'' (jsdom_parse E content ! i)) of
           Some p \<Rightarrow> set_property ''href'' p (jsdom_parse E content ! i)
         | None \<Rightarrow> jsdom_parse E content ! i)
      else jsdom_parse E content ! i)"
  using assms
  by (auto simp: rewrittenDocument_def processImages_eq case_prod_beta secondPass_nodes
        firstPass_length firstPass_nth ownDownload_def Let_def img_not_a
        split: option.splits)

lemma ownDownload_Some:
  assumes "ownDownload E X h content postSlug i = Some path"
  shows "i < length (jsdom_parse E content)"
    and "is_element ''img'' (jsdom_parse E content ! i)"
    and "url_property E ''src'' (jsdom_parse E content ! i) \<noteq> []"
    and "path = localPath E X (url_property E ''src'' (jsdom_parse E content ! i)) postSlug"
    and "map_of (fst (snd (processImages E X h content postSlug)))
           (url_property E ''src'' (jsdom_parse E content ! i)) = Some path"
    and "\<exists>bytes. WriteBuffer path bytes \<in> set (fst (processImages E X h content postSlug))"
proof -
  let ?doc = "jsdom_parse E content"
  let ?h = "h @ fst (firstPass E X postSlug h (take i ?doc) [] [])"
  let ?u = "url_property E ''src'' (?doc ! i)"
  from assms show i: "i < length ?doc" and img: "is_element ''img'' (?doc ! i)"
    by (auto simp: ownDownload_def Let_def split: if_splits)
  with assms have r: "resolve E X postSlug ?h ?u = Some path"
    by (simp add: ownDownload_def Let_def)
  then show u: "?u \<noteq> []" by (simp add: resolve_Some)
  from r show "path = localPath E X ?u postSlug" by (rule resolve_path)
  from firstPass_nth_map [OF i img r]
  show "map_of (fst (snd (processImages E X h content postSlug))) ?u = Some path"
    by (simp add: processImages_eq)
  from r have d: "snd (downloadImage E X ?h ?u postSlug) = Some path" by (simp add: resolve_Some)
  from downloadImage_Some(2) [OF d] obtain bytes where
    "WriteBuffer path bytes \<in> set (fst (downloadImage E X ?h ?u postSlug))"
    by auto
  moreover have "set (fst (downloadImage E X ?h ?u postSlug))
      \<subseteq> set (fst (firstPass E X postSlug h ?doc [] []))"
    using firstPass_nth_events [OF i img, of E X h postSlug "[]" "[]"] u by (simp add: truthy_def)
  ultimately show "\<exists>bytes. WriteBuffer path bytes \<in> set (fst (processImages E X h content postSlug))"
    by (auto simp: processImages_eq)
qed

lemma processImages_map_sound:
  assumes "map_of (fst (snd (processImages E X h content postSlug))) imageUrl = Some path"
  shows "\<exists>i. ownDownload E X h content postSlug i = Some path
           \<and> url_property E ''src'' (jsdom_parse E content ! i) = imageUrl"
proof -
  from assms have "map_of (snd (snd (snd (firstPass E X postSlug h (jsdom_parse E content) [] [])))) imageUrl
                     = Some path"
    by (simp add: processImages_eq)
  from firstPass_map_sound [OF this] show ?thesis
    by (auto simp: ownDownload_def Let_def)
qed

text \<open>
  Claim C2, as the code has it. Every value recorded in the asset mapping is
  \<^verbatim>\<open>path.join(path.join(imagesDir, sanitize(postSlug)), sanitize(originalFilename))\<close>, where
  \<^verbatim>\<open>originalFilename\<close> is the last segment of the URL between slashes; the bytes of the
  image were written to that very path, and it is the value the \<^verbatim>\<open>src\<close> of an \<^verbatim>\<open>img\<close>
  element with that URL is set to: of at least one such element, and of every such
  element whose own download did not fail. The path starts at the configured images
  directory; it is not made relative to the output base directory.
\<close>

theorem recorded_path_is_image_path:
  assumes "map_of (fst (snd (processImages E X h content postSlug))) imageUrl = Some path"
  shows "path = path_join [path_join [imagesDir X, sanitize E postSlug],
                           sanitize E (last (split (CHR ''/'') imageUrl))]
         \<and> (\<exists>bytes. WriteBuffer path bytes \<in> set (fst (processImages E X h content postSlug)))
         \<and> (\<exists>i. i < length (jsdom_parse E content)
                \<and> is_element ''img'' (jsdom_parse E content ! i)
                \<and> url_property E ''src'' (jsdom_parse E content ! i) = imageUrl
                \<and> rewrittenDocument E X h content postSlug ! i
                    = set_property ''src'' path (jsdom_parse E content ! i))
         \<and> (\<forall>i. i < length (jsdom_parse E content)
                \<and> is_element ''img'' (jsdom_parse E content ! i)
                \<and> url_property E ''src'' (jsdom_parse E content ! i) = imageUrl
              \<longrightarrow> rewrittenDocument E X h content postSlug ! i
                    = (if ownDownload E X h content postSlug i = None then jsdom_parse E content ! i
                       else set_property ''src'' path (jsdom_parse E content ! i)))"
proof -
  let ?doc = "jsdom_parse E content"
  from processImages_map_sound [OF assms] obtain k where
    k: "ownDownload E X h content postSlug k = Some path" "url_property E ''src'' (?doc ! k) = imageUrl"
    by blast
  note own = ownDownload_Some [OF k(1)]
  have p: "path = localPath E X imageUrl postSlug" using own(4) k(2) by simp
  have w: "\<exists>bytes. WriteBuffer path bytes \<in> set (fst (processImages E X h content postSlug))"
    by (rule own(6))
  have one: "\<exists>i. i < length ?doc \<and> is_element ''img'' (?doc ! i)
                \<and> url_property E ''src'' (?doc ! i) = imageUrl
                \<and> rewrittenDocument E X h content postSlug ! i = set_property ''src'' path (?doc ! i)"
    using own(1,2) k by (intro exI [of _ k]) (simp add: rewrittenDocument_nth)
  have every: "rewrittenDocument E X h content postSlug ! i
                    = (if ownDownload E X h content postSlug i = None then ?doc ! i
                       else set_property ''src'' path (?doc ! i))"
    if "i < length ?doc" "is_element ''img'' (?doc ! i)" "url_property E ''src'' (?doc ! i) = imageUrl" for i
  proof (cases "ownDownload E X h content postSlug i")
    case None
    with that show ?thesis by (simp add: rewrittenDocument_nth)
  next
    case (Some q)
    from ownDownload_Some(4) [OF Some] that(3) p have "q = path" by simp
    with Some that show ?thesis by (simp add: rewrittenDocument_nth)
  qed
  from p w one every show ?thesis unfolding localPath_def by blast
qed

theorem recorded_path_is_image_path_witness:
  "map_of (fst (snd (processImages sample_env sample_exporter [] one_image ''post''))) ''http://x/pic.png''
     = Some ''blog_export/images/post/pic.png''
   \<and> ''blog_export/images/post/pic.png'' =
       path_join [path_join [imagesDir sample_exporter, sanitize sample_env ''post''],
                  sanitize sample_env (last (split (CHR ''/'') ''http://x/pic.png''))]
   \<and> (\<exists>bytes. WriteBuffer ''blog_export/images/post/pic.png'' bytes
                  \<in> set (fst (processImages sample_env sample_exporter [] one_image ''post'')))
   \<and> jsdom_parse sample_env one_image = [StartTag ''img'' [(''src'', ''http://x/pic.png'')]]
   \<and> ownDownload sample_env sample_exporter [] one_image ''post'' 0 = Some ''blog_export/images/post/pic.png''
   \<and> rewrittenDocument sample_env sample_exporter [] one_image ''post'' ! 0
       = StartTag ''img'' [(''src'', ''blog_export/images/post/pic.png'')]"
proof -
  have h: "map_of (fst (snd (processImages sample_env sample_exporter [] one_image ''post''))) ''http://x/pic.png''
     = Some ''blog_export/images/post/pic.png''"
    by code_simp
  have p: "jsdom_parse sample_env one_image = [StartTag ''img'' [(''src'', ''http://x/pic.png'')]]"
    by code_simp
  have s: "url_property sample_env ''src'' (StartTag ''img'' [(''src'', ''http://x/pic.png'')]) = ''http://x/pic.png''"
    by code_simp
  have o: "ownDownload sample_env sample_exporter [] one_image ''post'' 0 = Some ''blog_export/images/post/pic.png''"
    by code_simp
  note t = recorded_path_is_image_path [OF h]
  from t have a: "''blog_export/images/post/pic.png'' =
       path_join [path_join [imagesDir sample_exporter, sanitize sample_env ''post''],
                  sanitize sample_env (last (split (CHR ''/'') ''http://x/pic.png''))]"
    by (rule conjunct1)
  from t have b: "\<exists>bytes. WriteBuffer ''blog_export/images/post/pic.png'' bytes
                  \<in> set (fst (processImages sample_env sample_exporter [] one_image ''post''))"
    by blast
  from t have every: "\<And>i. i < length (jsdom_parse sample_env one_image) \<Longrightarrow>
       is_element ''img'' (jsdom_parse sample_env one_image ! i) \<Longrightarrow>
       url_property sample_env ''src'' (jsdom_parse sample_env one_image ! i) = ''http://x/pic.png'' \<Longrightarrow>
       rewrittenDocument sample_env sample_exporter [] one_image ''post'' ! i
       = (if ownDownload sample_env sample_exporter [] one_image ''post'' i = None
          then jsdom_parse sample_env one_image ! i
          else set_property ''src'' ''blog_export/images/post/pic.png'' (jsdom_parse sample_env one_image ! i))"
    by blast
  have i0: "0 < length (jsdom_parse sample_env one_image)" unfolding p by simp
  have g0: "is_element ''img'' (jsdom_parse sample_env one_image ! 0)" unfolding p by simp
  have s0: "url_property sample_env ''src'' (jsdom_parse sample_env one_image ! 0) = ''http://x/pic.png''"
    unfolding p using s by simp
  have c: "rewrittenDocument sample_env sample_exporter [] one_image ''post'' ! 0
       = StartTag ''img'' [(''src'', ''blog_export/images/post/pic.png'')]"
    using every [OF i0 g0 s0] unfolding o p by simp
  from h a b p o c show ?thesis by (intro conjI)
qed

text \<open>
  Claim C2 as stated fails. With the defaults of the command line (output directory
  \<^verbatim>\<open>blog_export\<close>, images directory \<^verbatim>\<open>blog_export/images\<close>) the value recorded for
  \<^verbatim>\<open>http://x/pic.png\<close> in the post \<^verbatim>\<open>post\<close> is \<^verbatim>\<open>blog_export/images/post/pic.png\<close>, the
  path the file was written to; read relative to the base directory it would name
  \<^verbatim>\<open>blog_export/blog_export/images/post/pic.png\<close>.
\<close>

theorem recorded_path_not_relative_to_baseDir_counterexample:
  "fst (snd (processImages sample_env sample_exporter [] one_image ''post''))
     = [(''http://x/pic.png'', ''blog_export/images/post/pic.png'')]
   \<and> snd (snd (processImages sample_env sample_exporter [] one_image ''post''))
     = ''<img src='' @ [CHR 0x22] @ ''blog_export/images/post/pic.png'' @ [CHR 0x22] @ ''>''
   \<and> image_files (fst (processImages sample_env sample_exporter [] one_image ''post''))
     = [(''blog_export/images/post/pic.png'', ''bytes'')]
   \<and> baseDir sample_exporter = ''blog_export''
   \<and> path_join [baseDir sample_exporter, ''blog_export/images/post/pic.png'']
     = ''blog_export/blog_export/images/post/pic.png''
   \<and> path_join [baseDir sample_exporter, ''blog_export/images/post/pic.png'']
     \<noteq> ''blog_export/images/post/pic.png''"
  by code_simp

text \<open>
  Claim C3, as the code has it. \<^verbatim>\<open>fetch\<close> is called once for each \<^verbatim>\<open>img\<close> element with a
  source that is not empty, in document order, whether or not the same URL was fetched
  before; so a URL that occurs in k such elements is fetched k times. One file is
  written for each element whose own download succeeds. An \<^verbatim>\<open>img\<close> element is rewritten
  exactly when its own download succeeds, to the path that is then recorded for its
  URL; when its own download fails it is left as it is.
\<close>

theorem fetch_for_each_img_element:
  "fetches (fst (processImages E X h content postSlug)) =
     map (url_property E ''src'')
       (filter (\<lambda>n. is_element ''img'' n \<and> truthy (url_property E ''src'' n)) (jsdom_parse E content))
   \<and> map fst (image_files (fst (processImages E X h content postSlug))) =
       concat (map (\<lambda>i. case ownDownload E X h content postSlug i of Some path \<Rightarrow> [path] | None \<Rightarrow> [])
                 [0..<length (jsdom_parse E content)])
   \<and> (\<forall>i. i < length (jsdom_parse E content) \<and> is_element ''img'' (jsdom_parse E content ! i)
        \<longrightarrow> rewrittenDocument E X h content postSlug ! i
              = (case ownDownload E X h content postSlug i of
                   Some path \<Rightarrow> set_property ''src'' path (jsdom_parse E content ! i)
                 | None \<Rightarrow> jsdom_parse E content ! i))
   \<and> (\<forall>i path. ownDownload E X h content postSlug i = Some path
        \<longrightarrow> map_of (fst (snd (processImages E X h content postSlug)))
              (url_property E ''src'' (jsdom_parse E content ! i)) = Some path)"
proof -
  let ?doc = "jsdom_parse E content"
  have 1: "fetches (fst (processImages E X h content postSlug)) =
     map (url_property E ''src'')
       (filter (\<lambda>n. is_element ''img'' n \<and> truthy (url_property E ''src'' n)) ?doc)"
    by (simp add: processImages_eq firstPass_fetches secondPass_fetches fetches_Cons)
  have eq: "map (\<lambda>i. if is_element ''img'' (?doc ! i) then
                        (case resolve E X postSlug (h @ fst (firstPass E X postSlug h (take i ?doc) [] []))
                                (url_property E ''src'' (?doc ! i)) of
                           Some p \<Rightarrow> [p] | None \<Rightarrow> [])
                      else []) [0..<length ?doc]
      = map (\<lambda>i. case ownDownload E X h content postSlug i of Some path \<Rightarrow> [path] | None \<Rightarrow> [])
          [0..<length ?doc]"
    by (rule map_cong) (simp_all add: ownDownload_def Let_def)
  have "map fst (image_files (fst (processImages E X h content postSlug))) =
        map fst (image_files (fst (firstPass E X postSlug h ?doc [] [])))"
    by (simp add: processImages_eq secondPass_image_files image_files_Cons)
  also note firstPass_image_files
  also note eq
  finally have 2: "map fst (image_files (fst (processImages E X h content postSlug))) =
       concat (map (\<lambda>i. case ownDownload E X h content postSlug i of Some path \<Rightarrow> [path] | None \<Rightarrow> [])
                 [0..<length ?doc])" .
  have 3: "rewrittenDocument E X h content postSlug ! i
              = (case ownDownload E X h content postSlug i of
                   Some path \<Rightarrow> set_property ''src'' path (?doc ! i)
                 | None \<Rightarrow> ?doc ! i)"
    if "i < length ?doc" "is_element ''img'' (?doc ! i)" for i
    using that by (simp add: rewrittenDocument_nth)
  from 1 2 3 ownDownload_Some(5) show ?thesis by blast
qed

theorem fetch_for_each_img_element_witness:
  "jsdom_parse flaky_env linked_images =
     [StartTag ''a'' [(''href'', ''http://x/pic.png'')], StartTag ''img'' [(''src'', ''http://x/pic.png'')],
      EndTag ''a'', StartTag ''img'' [(''src'', ''http://x/pic.png'')]]
   \<and> fetches (fst (processImages flaky_env sample_exporter [] linked_images ''post''))
       = [''http://x/pic.png'', ''http://x/pic.png'']
   \<and> ownDownload flaky_env sample_exporter [] linked_images ''post'' 1 = Some ''blog_export/images/post/pic.png''
   \<and> ownDownload flaky_env sample_exporter [] linked_images ''post'' 3 = None
   \<and> map fst (image_files (fst (processImages flaky_env sample_exporter [] linked_images ''post'')))
       = [''blog_export/images/post/pic.png'']
   \<and> rewrittenDocument flaky_env sample_exporter [] linked_images ''post'' ! 1
       = StartTag ''img'' [(''src'', ''blog_export/images/post/pic.png'')]
   \<and> rewrittenDocument flaky_env sample_exporter [] linked_images ''post'' ! 3
       = StartTag ''img'' [(''src'', ''http://x/pic.png'')]
   \<and> map_of (fst (snd (processImages flaky_env sample_exporter [] linked_images ''post''))) ''http://x/pic.png''
       = Some ''blog_export/images/post/pic.png''"
proof -
  let ?img = "StartTag ''img'' [(''src'', ''http://x/pic.png'')]"
  have p: "jsdom_parse flaky_env linked_images =
     [StartTag ''a'' [(''href'', ''http://x/pic.png'')], ?img, EndTag ''a'', ?img]"
    by code_simp
  have o0: "ownDownload flaky_env sample_exporter [] linked_images ''post'' 0 = None" by code_simp
  have o1: "ownDownload flaky_env sample_exporter [] linked_images ''post'' 1
              = Some ''blog_export/images/post/pic.png''" by code_simp
  have o2: "ownDownload flaky_env sample_exporter [] linked_images ''post'' 2 = None" by code_simp
  have o3: "ownDownload flaky_env sample_exporter [] linked_images ''post'' 3 = None" by code_simp
  have s: "url_property flaky_env ''src'' ?img = ''http://x/pic.png''" by code_simp
  have f: "map (url_property flaky_env ''src'')
       (filter (\<lambda>n. is_element ''img'' n \<and> truthy (url_property flaky_env ''src'' n))
          (jsdom_parse flaky_env linked_images)) = [''http://x/pic.png'', ''http://x/pic.png'']"
    by code_simp
  have up: "[0..<length (jsdom_parse flaky_env linked_images)] = [0, 1, 2, 3]"
    unfolding p by (simp add: upt_rec)
  note t = fetch_for_each_img_element [of flaky_env sample_exporter "[]" linked_images "''post''"]
  from t have a: "fetches (fst (processImages flaky_env sample_exporter [] linked_images ''post''))
     = [''http://x/pic.png'', ''http://x/pic.png'']"
    unfolding f by (rule conjunct1)
  from t have "map fst (image_files (fst (processImages flaky_env sample_exporter [] linked_images ''post'')))
       = concat (map (\<lambda>i. case ownDownload flaky_env sample_exporter [] linked_images ''post'' i of
                            Some path \<Rightarrow> [path] | None \<Rightarrow> [])
                 [0..<length (jsdom_parse flaky_env linked_images)])"
    by blast
  then have w: "map fst (image_files (fst (processImages flaky_env sample_exporter [] linked_images ''post'')))
       = [''blog_export/images/post/pic.png'']"
    unfolding up using o1 by (simp add: o0 o2 o3)
  from t have every: "\<And>i. i < length (jsdom_parse flaky_env linked_images) \<Longrightarrow>
       is_element ''img'' (jsdom_parse flaky_env linked_images ! i) \<Longrightarrow>
       rewrittenDocument flaky_env sample_exporter [] linked_images ''post'' ! i
         = (case ownDownload flaky_env sample_exporter [] linked_images ''post'' i of
              Some path \<Rightarrow> set_property ''src'' path (jsdom_parse flaky_env linked_images ! i)
            | None \<Rightarrow> jsdom_parse flaky_env linked_images ! i)"
    by blast
  have i1: "1 < length (jsdom_parse flaky_env linked_images)"
    and i3: "3 < length (jsdom_parse flaky_env linked_images)"
    and g1: "is_element ''img'' (jsdom_parse flaky_env linked_images ! 1)"
    and g3: "is_element ''img'' (jsdom_parse flaky_env linked_images ! 3)"
    unfolding p by simp_all
  have b: "rewrittenDocument flaky_env sample_exporter [] linked_images ''post'' ! 1
       = StartTag ''img'' [(''src'', ''blog_export/images/post/pic.png'')]"
    using every [OF i1 g1] unfolding o1 p by simp
  have c: "rewrittenDocument flaky_env sample_exporter [] linked_images ''post'' ! 3
       = StartTag ''img'' [(''src'', ''http://x/pic.png'')]"
    using every [OF i3 g3] unfolding o3 p by simp
  from t have "\<And>i path. ownDownload flaky_env sample_exporter [] linked_images ''post'' i = Some path \<Longrightarrow>
       map_of (fst (snd (processImages flaky_env sample_exporter [] linked_images ''post'')))
              (url_property flaky_env ''src'' (jsdom_parse flaky_env linked_images ! i)) = Some path"
    by blast
  from this [OF o1] have m: "map_of (fst (snd (processImages flaky_env sample_exporter [] linked_images ''post'')))
       ''http://x/pic.png'' = Some ''blog_export/images/post/pic.png''"
    unfolding p using s by simp
  from p a o1 o3 w b c m show ?thesis by (intro conjI)
qed

text \<open>
  Claim C3 as stated fails: a fragment with the same image URL in two \<^verbatim>\<open>img\<close> elements
  makes two requests for that URL, and when both are answered the file is written twice.
\<close>

theorem fetch_once_per_url_counterexample:
  "fetches (fst (processImages sample_env sample_exporter [] linked_images ''post''))
     = [''http://x/pic.png'', ''http://x/pic.png'']
   \<and> \<not> distinct (fetches (fst (processImages sample_env sample_exporter [] linked_images ''post'')))
   \<and> image_files (fst (processImages sample_env sample_exporter [] linked_images ''post''))
     = [(''blog_export/images/post/pic.png'', ''bytes''), (''blog_export/images/post/pic.png'', ''bytes'')]"
  by code_simp

text \<open>
  Claim C4, as the code has it. Let the download made for the \<^verbatim>\<open>img\<close> element at position
  \<open>i\<close>, whose source is \<open>url\<close>, succeed with \<open>path\<close>. Then that element has its \<^verbatim>\<open>src\<close> set to
  \<open>path\<close>, \<open>path\<close> is recorded for \<open>url\<close>, and every \<^verbatim>\<open>a\<close> element with the target \<open>url\<close> has
  its \<^verbatim>\<open>href\<close> set to the same \<open>path\<close>. Another \<^verbatim>\<open>img\<close> element with the source \<open>url\<close> gets the
  same \<open>path\<close> if its own download succeeds, and keeps \<open>url\<close> if its own download fails. No
  node is added or removed.
\<close>

theorem links_follow_images:
  assumes "ownDownload E X h content postSlug i = Some path"
      and "url_property E ''src'' (jsdom_parse E content ! i) = url"
  shows "rewrittenDocument E X h content postSlug ! i = set_property ''src'' path (jsdom_parse E content ! i)
       \<and> map_of (fst (snd (processImages E X h content postSlug))) url = Some path
       \<and> (\<forall>j. j < length (jsdom_parse E content)
              \<and> is_element ''a'' (jsdom_parse E content ! j)
              \<and> url_property E ''href'' (jsdom_parse E content ! j) = url
            \<longrightarrow> rewrittenDocument E X h content postSlug ! j
                  = set_property ''href'' path (jsdom_parse E content ! j))
       \<and> (\<forall>j. j < length (jsdom_parse E content)
              \<and> is_element ''img'' (jsdom_parse E content ! j)
              \<and> url_property E ''src'' (jsdom_parse E content ! j) = url
            \<longrightarrow> rewrittenDocument E X h content postSlug ! j
                  = (if ownDownload E X h content postSlug j = None then jsdom_parse E content ! j
                     else set_property ''src'' path (jsdom_parse E content ! j)))
       \<and> length (rewrittenDocument E X h content postSlug) = length (jsdom_parse E content)
       \<and> snd (snd (processImages E X h content postSlug))
           = jsdom_innerHTML E (rewrittenDocument E X h content postSlug)"
proof -
  let ?doc = "jsdom_parse E content"
  note own = ownDownload_Some [OF assms(1)]
  have u: "url \<noteq> []" using own(3) assms(2) by simp
  have p: "path = localPath E X url postSlug" using own(4) assms(2) by simp
  have m: "map_of (fst (snd (processImages E X h content postSlug))) url = Some path"
    using own(5) assms(2) by simp
  have self: "rewrittenDocument E X h content postSlug ! i = set_property ''src'' path (?doc ! i)"
    using own(1,2) assms(1) by (simp add: rewrittenDocument_nth)
  have a: "rewrittenDocument E X h content postSlug ! j = set_property ''href'' path (?doc ! j)"
    if "j < length ?doc" "is_element ''a'' (?doc ! j)" "url_property E ''href'' (?doc ! j) = url" for j
  proof -
    from that(2) have "\<not> is_element ''img'' (?doc ! j)" by (cases "?doc ! j") auto
    with that u m show ?thesis by (simp add: rewrittenDocument_nth truthy_def)
  qed
  have img: "rewrittenDocument E X h content postSlug ! j
                  = (if ownDownload E X h content postSlug j = None then ?doc ! j
                     else set_property ''src'' path (?doc ! j))"
    if "j < length ?doc" "is_element ''img'' (?doc ! j)" "url_property E ''src'' (?doc ! j) = url" for j
  proof (cases "ownDownload E X h content postSlug j")
    case None
    with that show ?thesis by (simp add: rewrittenDocument_nth)
  next
    case (Some q)
    from ownDownload_Some(4) [OF Some] that(3) p have "q = path" by simp
    with Some that show ?thesis by (simp add: rewrittenDocument_nth)
  qed
  from self m a img show ?thesis
    by (simp add: rewrittenDocument_length processImages_eq)
qed

theorem links_follow_images_witness:
  "jsdom_parse flaky_env linked_images =
     [StartTag ''a'' [(''href'', ''http://x/pic.png'')], StartTag ''img'' [(''src'', ''http://x/pic.png'')],
      EndTag ''a'', StartTag ''img'' [(''src'', ''http://x/pic.png'')]]
   \<and> ownDownload flaky_env sample_exporter [] linked_images ''post'' 1 = Some ''blog_export/images/post/pic.png''
   \<and> ownDownload flaky_env sample_exporter [] linked_images ''post'' 3 = None
   \<and> map_of (fst (snd (processImages flaky_env sample_exporter [] linked_images ''post''))) ''http://x/pic.png''
       = Some ''blog_export/images/post/pic.png''
   \<and> rewrittenDocument flaky_env sample_exporter [] linked_images ''post'' ! 0
       = StartTag ''a'' [(''href'', ''blog_export/images/post/pic.png'')]
   \<and> rewrittenDocument flaky_env sample_exporter [] linked_images ''post'' ! 1
       = StartTag ''img'' [(''src'', ''blog_export/images/post/pic.png'')]
   \<and> rewrittenDocument flaky_env sample_exporter [] linked_images ''post'' ! 3
       = StartTag ''img'' [(''src'', ''http://x/pic.png'')]
   \<and> length (rewrittenDocument flaky_env sample_exporter [] linked_images ''post'') = 4"
proof -
  let ?img = "StartTag ''img'' [(''src'', ''http://x/pic.png'')]"
  let ?a = "StartTag ''a'' [(''href'', ''http://x/pic.png'')]"
  have p: "jsdom_parse flaky_env linked_images = [?a, ?img, EndTag ''a'', ?img]"
    by code_simp
  have o1: "ownDownload flaky_env sample_exporter [] linked_images ''post'' 1
              = Some ''blog_export/images/post/pic.png''" by code_simp
  have o3: "ownDownload flaky_env sample_exporter [] linked_images ''post'' 3 = None" by code_simp
  have s: "url_property flaky_env ''src'' ?img = ''http://x/pic.png''" by code_simp
  have r: "url_property flaky_env ''href'' ?a = ''http://x/pic.png''" by code_simp
  have s1: "url_property flaky_env ''src'' (jsdom_parse flaky_env linked_images ! 1) = ''http://x/pic.png''"
    unfolding p using s by simp
  note t = links_follow_images [OF o1 s1]
  from t have self: "rewrittenDocument flaky_env sample_exporter [] linked_images ''post'' ! 1
       = set_property ''src'' ''blog_export/images/post/pic.png'' (jsdom_parse flaky_env linked_images ! 1)"
    by (rule conjunct1)
  then have b: "rewrittenDocument flaky_env sample_exporter [] linked_images ''post'' ! 1
       = StartTag ''img'' [(''src'', ''blog_export/images/post/pic.png'')]"
    unfolding p by simp
  from t have m: "map_of (fst (snd (processImages flaky_env sample_exporter [] linked_images ''post'')))
       ''http://x/pic.png'' = Some ''blog_export/images/post/pic.png''"
    by blast
  from t have links: "\<And>j. j < length (jsdom_parse flaky_env linked_images) \<Longrightarrow>
       is_element ''a'' (jsdom_parse flaky_env linked_images ! j) \<Longrightarrow>
       url_property flaky_env ''href'' (jsdom_parse flaky_env linked_images ! j) = ''http://x/pic.png'' \<Longrightarrow>
       rewrittenDocument flaky_env sample_exporter [] linked_images ''post'' ! j
         = set_property ''href'' ''blog_export/images/post/pic.png'' (jsdom_parse flaky_env linked_images ! j)"
    by blast
  from t have imgs: "\<And>j. j < length (jsdom_parse flaky_env linked_images) \<Longrightarrow>
       is_element ''img'' (jsdom_parse flaky_env linked_images ! j) \<Longrightarrow>
       url_property flaky_env ''src'' (jsdom_parse flaky_env linked_images ! j) = ''http://x/pic.png'' \<Longrightarrow>
       rewrittenDocument flaky_env sample_exporter [] linked_images ''post'' ! j
         = (if ownDownload flaky_env sample_exporter [] linked_images ''post'' j = None
            then jsdom_parse flaky_env linked_images ! j
            else set_property ''src'' ''blog_export/images/post/pic.png'' (jsdom_parse flaky_env linked_images ! j))"
    by blast
  from t have len: "length (rewrittenDocument flaky_env sample_exporter [] linked_images ''post'')
       = length (jsdom_parse flaky_env linked_images)"
    by blast
  have i0: "0 < length (jsdom_parse flaky_env linked_images)"
    and i3: "3 < length (jsdom_parse flaky_env linked_images)"
    and g0: "is_element ''a'' (jsdom_parse flaky_env linked_images ! 0)"
    and g3: "is_element ''img'' (jsdom_parse flaky_env linked_images ! 3)"
    unfolding p by simp_all
  have r0: "url_property flaky_env ''href'' (jsdom_parse flaky_env linked_images ! 0) = ''http://x/pic.png''"
    unfolding p using r by simp
  have s3: "url_property flaky_env ''src'' (jsdom_parse flaky_env linked_images ! 3) = ''http://x/pic.png''"
    unfolding p using s by simp
  have a: "rewrittenDocument flaky_env sample_exporter [] linked_images ''post'' ! 0
       = StartTag ''a'' [(''href'', ''blog_export/images/post/pic.png'')]"
    using links [OF i0 g0 r0] unfolding p by simp
  have c: "rewrittenDocument flaky_env sample_exporter [] linked_images ''post'' ! 3
       = StartTag ''img'' [(''src'', ''http://x/pic.png'')]"
    using imgs [OF i3 g3 s3] unfolding o3 p by simp
  have l: "length (rewrittenDocument flaky_env sample_exporter [] linked_images ''post'') = 4"
    using len unfolding p by simp
  from p o1 o3 m a b c l show ?thesis by (intro conjI)
qed

text \<open>
  Claim C4 as stated fails. A site answers the first request for
  \<^verbatim>\<open>http://x/pic.png\<close> and rejects the second. In a fragment with a link to that image
  and two \<^verbatim>\<open>img\<close> elements for it, the first element resolves and is rewritten, and so is
  the link; the second element, whose own download failed, still carries the original
  URL in the fragment returned.
\<close>

theorem img_keeps_url_after_failed_download_counterexample:
  "fetches (fst (processImages flaky_env sample_exporter [] linked_images ''post''))
     = [''http://x/pic.png'', ''http://x/pic.png'']
   \<and> fst (snd (processImages flaky_env sample_exporter [] linked_images ''post''))
     = [(''http://x/pic.png'', ''blog_export/images/post/pic.png'')]
   \<and> rewrittenDocument flaky_env sample_exporter [] linked_images ''post''
     = [StartTag ''a'' [(''href'', ''blog_export/images/post/pic.png'')],
        StartTag ''img'' [(''src'', ''blog_export/images/post/pic.png'')],
        EndTag ''a'',
        StartTag ''img'' [(''src'', ''http://x/pic.png'')]]
   \<and> snd (snd (processImages flaky_env sample_exporter [] linked_images ''post''))
     = ''<a href='' @ [CHR 0x22] @ ''blog_export/images/post/pic.png'' @ [CHR 0x22] @ ''>''
       @ ''<img src='' @ [CHR 0x22] @ ''blog_export/images/post/pic.png'' @ [CHR 0x22] @ ''>''
       @ ''</a>''
       @ ''<img src='' @ [CHR 0x22] @ ''http://x/pic.png'' @ [CHR 0x22] @ ''>''"
  by code_simp

text \<open>
  Claim C5, as the code has it. For a fragment without \<^verbatim>\<open>img\<close> elements no node of the
  parsed document is changed, nothing is fetched or written, the mapping is empty, and
  the fragment returned is the serialisation of the parsed input. It equals the input
  exactly when the input is already in the form jsdom serialises to.
\<close>

theorem processImages_no_images:
  "filter (is_element ''img'') (jsdom_parse E content) = [] \<Longrightarrow>
   processImages E X h content postSlug =
     ([ConsoleLog (''Downloaded 0 images for post: '' @ postSlug)], [],
      jsdom_innerHTML E (jsdom_parse E content))
   \<and> rewrittenDocument E X h content postSlug = jsdom_parse E content"
proof -
  assume "filter (is_element ''img'') (jsdom_parse E content) = []"
  then have no: "\<forall>n \<in> set (jsdom_parse E content). \<not> is_element ''img'' n"
    by (simp add: filter_empty_conv)
  have 0: "show_nat 0 = ''0''" by code_simp
  show ?thesis
    using firstPass_no_images [OF no]
    by (simp add: processImages_def rewrittenDocument_def secondPass_empty 0)
qed

theorem processImages_no_images_witness:
  "filter (is_element ''img'') (jsdom_parse sample_env ''<p>hi</p>'') = []
   \<and> processImages sample_env sample_exporter [] ''<p>hi</p>'' ''post'' =
       ([ConsoleLog ''Downloaded 0 images for post: post''], [], ''<p>hi</p>'')"
proof -
  have p: "jsdom_parse sample_env ''<p>hi</p>'' = [StartTag ''p'' [], Text ''hi'', EndTag ''p'']"
    by (simp add: sample_env_def sample_parse_def parse_chunk_def parse_tag_def text_node_def)
  have h: "filter (is_element ''img'') (jsdom_parse sample_env ''<p>hi</p>'') = []"
    unfolding p by simp
  have s: "jsdom_innerHTML sample_env [StartTag ''p'' [], Text ''hi'', EndTag ''p''] = ''<p>hi</p>''"
    by (simp add: sample_env_def sample_innerHTML_def)
  show ?thesis
    using h processImages_no_images [OF h, of sample_exporter "[]" "''post''"] unfolding p s by simp
qed

text \<open>
  Claim C5 as stated fails: jsdom writes attribute values in double quotes, so the
  fragment \<^verbatim>\<open><p class=x>hi</p>\<close>, which has no image, is not returned as it was given.
\<close>

theorem processImages_reserializes_counterexample:
  "filter (is_element ''img'') (jsdom_parse sample_env ''<p class=x>hi</p>'') = []
   \<and> snd (snd (processImages sample_env sample_exporter [] ''<p class=x>hi</p>'' ''post''))
       = ''<p class='' @ [CHR 0x22] @ ''x'' @ [CHR 0x22] @ ''>hi</p>''
   \<and> snd (snd (processImages sample_env sample_exporter [] ''<p class=x>hi</p>'' ''post''))
       \<noteq> ''<p class=x>hi</p>''"
proof -
  have p: "jsdom_parse sample_env ''<p class=x>hi</p>'' = [StartTag ''p'' [(''class'', ''x'')], Text ''hi'', EndTag ''p'']"
    by (simp add: sample_env_def sample_parse_def parse_chunk_def parse_tag_def text_node_def
          parse_attribute_def unquote_def)
  have s: "jsdom_innerHTML sample_env [StartTag ''p'' [(''class'', ''x'')], Text ''hi'', EndTag ''p'']
            = ''<p class='' @ [CHR 0x22] @ ''x'' @ [CHR 0x22] @ ''>hi</p>''"
    by (simp add: sample_env_def sample_innerHTML_def)
  have r: "snd (snd (processImages sample_env sample_exporter [] ''<p class=x>hi</p>'' ''post''))
       = ''<p class='' @ [CHR 0x22] @ ''x'' @ [CHR 0x22] @ ''>hi</p>''"
    unfolding processImages_def Let_def p by (simp add: secondPass_empty s)
  show ?thesis unfolding r unfolding p by simp
qed

subsection \<open>Frontmatter\<close>

lemma extractFeaturedImage_nonempty:
  "snd (extractFeaturedImage E X h' post (fst (snd (processImages E X h content postSlug)))) \<noteq> Some []"
proof -
  let ?m = "fst (snd (processImages E X h content postSlug))"
  have "map_of ?m u \<noteq> Some []" for u
  proof
    assume "map_of ?m u = Some []"
    from processImages_map_sound [OF this] obtain i where
      "ownDownload E X h content postSlug i = Some []" by blast
    from ownDownload_Some(4) [OF this] show False
      by (simp add: localPath_def path_join_nonempty [THEN not_sym])
  qed
  then show ?thesis
    using downloadImage_nonempty
    by (auto simp: extractFeaturedImage_def split: option.splits)
qed

lemma baseFrontMatter_keys:
  "map fst (baseFrontMatter X post featuredMediaUrl) =
     [''title'', ''date'', ''modified'', ''slug'', ''status'', ''categories'', ''tags'', ''author'',
      ''excerpt'', ''original_url'']
     @ (if featuredMediaUrl = None \<or> featuredMediaUrl = Some [] then [] else [''featured_image''])"
  by (cases featuredMediaUrl) (simp_all add: baseFrontMatter_def Let_def truthy_def)

lemma baseFrontMatter_terms:
  "Option.bind (post_embedded post) wp_term = None \<Longrightarrow>
   map_of (baseFrontMatter X post featuredMediaUrl) ''categories'' = Some (YList [])
   \<and> map_of (baseFrontMatter X post featuredMediaUrl) ''tags'' = Some (YList [])"
  by (cases featuredMediaUrl)
     (simp_all add: baseFrontMatter_def Let_def truthy_def extractTermNames_def update_conv')

text \<open>No value of the object is \<^verbatim>\<open>undefined\<close>, so js-yaml writes every pair of it.\<close>

lemma baseFrontMatter_defined:
  "filter (\<lambda>(key, v). v \<noteq> YUndefined) (baseFrontMatter X post featuredMediaUrl)
     = baseFrontMatter X post featuredMediaUrl"
  by (cases featuredMediaUrl)
     (auto simp: baseFrontMatter_def Let_def truthy_def split: option.splits)

lemma baseFrontMatter_dump:
  "yaml_dump E (baseFrontMatter X post featuredMediaUrl) =
     concat (map (\<lambda>(key, v). dump_pair E key v) (baseFrontMatter X post featuredMediaUrl))"
proof -
  have "baseFrontMatter X post featuredMediaUrl \<noteq> []"
    using baseFrontMatter_keys [of X post featuredMediaUrl] by auto
  then show ?thesis
    by (simp add: yaml_dump_def Let_def baseFrontMatter_defined)
qed

lemma extractFeaturedImage_documents: "documents (fst (extractFeaturedImage E X h post m)) = []"
  by (simp add: extractFeaturedImage_def downloadImage_documents split: option.splits)

lemma createFrontMatter_events:
  "fst (createFrontMatter E X h post m) = fst (extractFeaturedImage E X h post m)"
  by (simp add: createFrontMatter_def case_prod_beta split: sum.splits)

text \<open>
  Claim C8, as the code has it. With the asset mapping of the body of the post, the
  object assembled has the keys title, date, modified, slug, status, categories, tags,
  author, excerpt, original_url in this order, followed by featured_image exactly when
  \<^verbatim>\<open>extractFeaturedImage\<close> returned a path, and js-yaml would write every pair of it, in
  this order. What is serialised is the object the frontmatter hooks of the loaded
  plugins return for it: the text is, between the two lines of dashes, what js-yaml
  writes for each pair of that object whose value is defined, in the order of that
  object. With no plugin loaded that is the object assembled. A post without embedded
  term data gets empty lists of categories and tags.
\<close>

theorem frontmatter_key_order:
  "(let imageUrlMap = fst (snd (processImages E X h (content_rendered post) (slug post)));
        featuredMediaUrl = snd (extractFeaturedImage E X h' post imageUrlMap);
        frontMatter = baseFrontMatter X post featuredMediaUrl
    in map fst frontMatter =
         [''title'', ''date'', ''modified'', ''slug'', ''status'', ''categories'', ''tags'', ''author'',
          ''excerpt'', ''original_url'']
         @ (if featuredMediaUrl = None then [] else [''featured_image''])
       \<and> yaml_dump E frontMatter = concat (map (\<lambda>(key, v). dump_pair E key v) frontMatter)
       \<and> (\<forall>returned. foldFrontMatter (loadedPlugins X) frontMatter post = Inr returned
              \<and> filter (\<lambda>(key, v). v \<noteq> YUndefined) returned \<noteq> []
            \<longrightarrow> snd (createFrontMatter E X h' post imageUrlMap) =
                  Inr (''---'' @ [LF]
                       @ concat (map (\<lambda>(key, v). dump_pair E key v)
                                   (filter (\<lambda>(key, v). v \<noteq> YUndefined) returned))
                       @ ''---'' @ [LF, LF]))
       \<and> (loadedPlugins X = [] \<longrightarrow>
            snd (createFrontMatter E X h' post imageUrlMap) =
              Inr (''---'' @ [LF] @ concat (map (\<lambda>(key, v). dump_pair E key v) frontMatter)
                   @ ''---'' @ [LF, LF]))
       \<and> (Option.bind (post_embedded post) wp_term = None \<longrightarrow>
            map_of frontMatter ''categories'' = Some (YList [])
            \<and> map_of frontMatter ''tags'' = Some (YList [])))"
proof -
  let ?m = "fst (snd (processImages E X h (content_rendered post) (slug post)))"
  let ?f = "snd (extractFeaturedImage E X h' post ?m)"
  let ?fm = "baseFrontMatter X post ?f"
  have ne: "?f \<noteq> Some []" by (rule extractFeaturedImage_nonempty)
  have 1: "map fst ?fm =
         [''title'', ''date'', ''modified'', ''slug'', ''status'', ''categories'', ''tags'', ''author'',
          ''excerpt'', ''original_url'']
         @ (if ?f = None then [] else [''featured_image''])"
    unfolding baseFrontMatter_keys using ne by simp
  have 2: "yaml_dump E ?fm = concat (map (\<lambda>(key, v). dump_pair E key v) ?fm)"
    by (rule baseFrontMatter_dump)
  have 3: "snd (createFrontMatter E X h' post ?m) =
                  Inr (''---'' @ [LF]
                       @ concat (map (\<lambda>(key, v). dump_pair E key v)
                                   (filter (\<lambda>(key, v). v \<noteq> YUndefined) returned))
                       @ ''---'' @ [LF, LF])"
    if "foldFrontMatter (loadedPlugins X) ?fm post = Inr returned"
       "filter (\<lambda>(key, v). v \<noteq> YUndefined) returned \<noteq> []" for returned
    using that by (simp add: createFrontMatter_def case_prod_beta yaml_dump_def Let_def)
  have 4: "snd (createFrontMatter E X h' post ?m) =
              Inr (''---'' @ [LF] @ concat (map (\<lambda>(key, v). dump_pair E key v) ?fm)
                   @ ''---'' @ [LF, LF])" if "loadedPlugins X = []"
    using that by (simp add: createFrontMatter_def case_prod_beta 2)
  show ?thesis
    unfolding Let_def using 1 2 3 4 baseFrontMatter_terms by blast
qed

theorem frontmatter_key_order_witness:
  "loadedPlugins sample_exporter = []
   \<and> Option.bind (post_embedded featured_post) wp_term = None
   \<and> snd (extractFeaturedImage sample_env sample_exporter [] featured_post
            (fst (snd (processImages sample_env sample_exporter [] (content_rendered featured_post)
                        (slug featured_post)))))
       = Some ''blog_export/images/cover/cover.png''
   \<and> map fst (baseFrontMatter sample_exporter featured_post (Some ''blog_export/images/cover/cover.png''))
       = [''title'', ''date'', ''modified'', ''slug'', ''status'', ''categories'', ''tags'', ''author'',
          ''excerpt'', ''original_url'', ''featured_image'']
   \<and> map_of (baseFrontMatter sample_exporter featured_post (Some ''blog_export/images/cover/cover.png''))
        ''categories'' = Some (YList [])
   \<and> map_of (baseFrontMatter sample_exporter featured_post (Some ''blog_export/images/cover/cover.png''))
        ''tags'' = Some (YList [])
   \<and> foldFrontMatter (loadedPlugins sample_exporter)
         (baseFrontMatter sample_exporter featured_post (Some ''blog_export/images/cover/cover.png''))
         featured_post
       = Inr (baseFrontMatter sample_exporter featured_post (Some ''blog_export/images/cover/cover.png''))
   \<and> filter (\<lambda>(key, v). v \<noteq> YUndefined)
         (baseFrontMatter sample_exporter featured_post (Some ''blog_export/images/cover/cover.png''))
       = baseFrontMatter sample_exporter featured_post (Some ''blog_export/images/cover/cover.png'')
   \<and> snd (createFrontMatter sample_env sample_exporter [] featured_post
            (fst (snd (processImages sample_env sample_exporter [] (content_rendered featured_post)
                        (slug featured_post))))) =
       Inr (''---'' @ [LF]
            @ ''title: Title'' @ [LF]
            @ ''date: '' @ [CHR 0x27] @ ''2023-01-18T13:31:19'' @ [CHR 0x27] @ [LF]
            @ ''modified: '' @ [CHR 0x27] @ ''2023-01-18T13:32:52'' @ [CHR 0x27] @ [LF]
            @ ''slug: cover'' @ [LF]
            @ ''status: publish'' @ [LF]
            @ ''categories: []'' @ [LF]
            @ ''tags: []'' @ [LF]
            @ ''author: David'' @ [LF]
            @ ''excerpt: Excerpt'' @ [LF]
            @ ''original_url: https://example.com/cover'' @ [LF]
            @ ''featured_image: blog_export/images/cover/cover.png'' @ [LF]
            @ ''---'' @ [LF, LF])"
proof -
  let ?m = "fst (snd (processImages sample_env sample_exporter [] (content_rendered featured_post)
                        (slug featured_post)))"
  let ?fm = "baseFrontMatter sample_exporter featured_post (Some ''blog_export/images/cover/cover.png'')"
  have h1: "loadedPlugins sample_exporter = []" by code_simp
  have h2: "Option.bind (post_embedded featured_post) wp_term = None" by code_simp
  have f: "snd (extractFeaturedImage sample_env sample_exporter [] featured_post ?m)
             = Some ''blog_export/images/cover/cover.png''"
    by code_simp
  have d: "concat (map (\<lambda>(key, v). dump_pair sample_env key v) ?fm) =
            ''title: Title'' @ [LF]
            @ ''date: '' @ [CHR 0x27] @ ''2023-01-18T13:31:19'' @ [CHR 0x27] @ [LF]
            @ ''modified: '' @ [CHR 0x27] @ ''2023-01-18T13:32:52'' @ [CHR 0x27] @ [LF]
            @ ''slug: cover'' @ [LF]
            @ ''status: publish'' @ [LF]
            @ ''categories: []'' @ [LF]
            @ ''tags: []'' @ [LF]
            @ ''author: David'' @ [LF]
            @ ''excerpt: Excerpt'' @ [LF]
            @ ''original_url: https://example.com/cover'' @ [LF]
            @ ''featured_image: blog_export/images/cover/cover.png'' @ [LF]"
    by code_simp
  note t = frontmatter_key_order [where E = sample_env and X = sample_exporter and post = featured_post
                                    and h = "[]" and h' = "[]", unfolded Let_def f]
  from t have k: "map fst ?fm =
        [''title'', ''date'', ''modified'', ''slug'', ''status'', ''categories'', ''tags'', ''author'',
          ''excerpt'', ''original_url'', ''featured_image'']"
    by simp
  from t h2 have c: "map_of ?fm ''categories'' = Some (YList [])" by blast
  from t h2 have g: "map_of ?fm ''tags'' = Some (YList [])" by blast
  have r: "foldFrontMatter (loadedPlugins sample_exporter) ?fm featured_post = Inr ?fm"
    by (simp add: h1)
  have u: "filter (\<lambda>(key, v). v \<noteq> YUndefined) ?fm = ?fm"
    by (rule baseFrontMatter_defined)
  have ne: "filter (\<lambda>(key, v). v \<noteq> YUndefined) ?fm \<noteq> []"
    unfolding u using k by auto
  from t have "\<And>returned. foldFrontMatter (loadedPlugins sample_exporter) ?fm featured_post = Inr returned \<Longrightarrow>
        filter (\<lambda>(key, v). v \<noteq> YUndefined) returned \<noteq> [] \<Longrightarrow>
        snd (createFrontMatter sample_env sample_exporter [] featured_post ?m) =
              Inr (''---'' @ [LF]
                   @ concat (map (\<lambda>(key, v). dump_pair sample_env key v)
                               (filter (\<lambda>(key, v). v \<noteq> YUndefined) returned))
                   @ ''---'' @ [LF, LF])"
    by blast
  from this [OF r ne] have "snd (createFrontMatter sample_env sample_exporter [] featured_post ?m) =
              Inr (''---'' @ [LF] @ concat (map (\<lambda>(key, v). dump_pair sample_env key v) ?fm)
                   @ ''---'' @ [LF, LF])"
    unfolding u .
  then have o: "snd (createFrontMatter sample_env sample_exporter [] featured_post ?m) =
       Inr (''---'' @ [LF]
            @ ''title: Title'' @ [LF]
            @ ''date: '' @ [CHR 0x27] @ ''2023-01-18T13:31:19'' @ [CHR 0x27] @ [LF]
            @ ''modified: '' @ [CHR 0x27] @ ''2023-01-18T13:32:52'' @ [CHR 0x27] @ [LF]
            @ ''slug: cover'' @ [LF]
            @ ''status: publish'' @ [LF]
            @ ''categories: []'' @ [LF]
            @ ''tags: []'' @ [LF]
            @ ''author: David'' @ [LF]
            @ ''excerpt: Excerpt'' @ [LF]
            @ ''original_url: https://example.com/cover'' @ [LF]
            @ ''featured_image: blog_export/images/cover/cover.png'' @ [LF]
            @ ''---'' @ [LF, LF])"
    unfolding d by simp
  from h1 h2 f k c g r u o show ?thesis by (intro conjI)
qed

text \<open>
  Claim C8 as stated fails. With the example plugin \<^verbatim>\<open>ExampleFixPaths\<close> of the repository
  loaded, a post without a featured image gets the key \<^verbatim>\<open>featured_image\<close> in the
  serialised frontmatter, with the value \<^verbatim>\<open>null\<close>, although no featured image resolved.
\<close>

theorem featured_image_without_image_counterexample:
  "map plugin_name (loadedPlugins loaded_fixpaths_exporter) = [''ExampleFixPaths'']
   \<and> processImages sample_env loaded_fixpaths_exporter [] (content_rendered paths_post) (slug paths_post)
       = ([ConsoleLog ''Downloaded 0 images for post: paths''], [], ''static/images/blogs/x.png'')
   \<and> extractFeaturedImage sample_env loaded_fixpaths_exporter [] paths_post [] = ([], None)
   \<and> snd (createFrontMatter sample_env loaded_fixpaths_exporter [] paths_post []) =
       Inr (''---'' @ [LF]
            @ ''title: Title'' @ [LF]
            @ ''date: '' @ [CHR 0x27] @ ''2023-01-18T13:31:19'' @ [CHR 0x27] @ [LF]
            @ ''modified: '' @ [CHR 0x27] @ ''2023-01-18T13:32:52'' @ [CHR 0x27] @ [LF]
            @ ''slug: paths'' @ [LF]
            @ ''status: publish'' @ [LF]
            @ ''categories: []'' @ [LF]
            @ ''tags: []'' @ [LF]
            @ ''author: 1'' @ [LF]
            @ ''excerpt: Excerpt'' @ [LF]
            @ ''original_url: https://example.com/paths'' @ [LF]
            @ ''featured_image: null'' @ [LF]
            @ ''---'' @ [LF, LF])"
  by code_simp

subsection \<open>Plugins\<close>

lemma foldl_and_then_Inl: "foldl (\<lambda>acc p. and_then acc (hook p)) (Inl e) ps = Inl e"
  by (induction ps) (simp_all add: and_then_def)

lemma and_then_Inl [simp]: "and_then (Inl e) f = Inl e"
  by (simp add: and_then_def)

lemma and_then_Inr [simp]: "and_then (Inr x) f = f x"
  by (simp add: and_then_def)

lemma left_fold_Nil: "left_fold hook [] x = Inr x"
  by (simp add: left_fold_def)

lemma left_fold_Cons: "left_fold hook (p # ps) x = and_then (hook p x) (left_fold hook ps)"
  by (cases "hook p x") (simp_all add: left_fold_def foldl_and_then_Inl)

text \<open>Each of the three loops of the code is the left fold over the loaded plugins.\<close>

lemma foldMarkdown_left_fold: "foldMarkdown ps markdown = left_fold processMarkdown ps markdown"
  by (induction ps arbitrary: markdown)
     (simp_all add: left_fold_Nil left_fold_Cons and_then_def split: sum.splits)

lemma foldHtml_left_fold:
  "foldHtml ps html imageUrlMap = left_fold (\<lambda>p x. processHtml p x imageUrlMap) ps html"
  by (induction ps arbitrary: html)
     (simp_all add: left_fold_Nil left_fold_Cons and_then_def split: sum.splits)

lemma foldFrontMatter_left_fold:
  "foldFrontMatter ps frontMatter post = left_fold (\<lambda>p x. processFrontMatter p x post) ps frontMatter"
  by (induction ps arbitrary: frontMatter)
     (simp_all add: left_fold_Nil left_fold_Cons and_then_def split: sum.splits)

text \<open>
  When no name is missing, the plugins loaded are, name by name in the order of the
  configured list, the first class found with that name.
\<close>

lemma lookupPlugins_found:
  "lookupPlugins found names = (loaded, []) \<Longrightarrow>
   map Some loaded = map (\<lambda>pluginName. find (\<lambda>p. plugin_name p = pluginName) found) names"
  by (induction names arbitrary: loaded) (auto split: prod.splits option.splits)

lemma init_loaded:
  assumes "init E X = (ev0, Returned X')"
  shows "\<exists>loaded. lookupPlugins (allPlugins E) (plugins X) = (loaded, [])
           \<and> X' = X\<lparr>loadedPlugins := loadedPlugins X @ loaded\<rparr>"
  using assms by (auto simp: init_def split: option.splits prod.splits if_splits)

text \<open>
  Claim C9. After \<^verbatim>\<open>init\<close> the plugins loaded are those the exporter had (none, after the
  constructor) followed by the plugins of the configured list, in the order of that
  list. Each of the three loops is a left fold over them, each output being the next
  input: for two plugins \<open>[A, B]\<close> the Markdown is
  \<open>B.processMarkdown (A.processMarkdown base)\<close>. The document of a post is made of these
  folds: the fold of the HTML hooks on the fragment of \<^verbatim>\<open>processImages\<close>, turndown, the
  fold of the Markdown hooks, and the dump of the fold of the frontmatter hooks on the
  object assembled.
\<close>

theorem plugins_fold_left_to_right:
  assumes "init E X = (ev0, Returned X')"
  shows "map Some (loadedPlugins X') =
           map Some (loadedPlugins X)
           @ map (\<lambda>pluginName. find (\<lambda>p. plugin_name p = pluginName) (allPlugins E)) (plugins X)
       \<and> (\<forall>content imageUrlMap.
            foldHtml (loadedPlugins X') content imageUrlMap =
              left_fold (\<lambda>p html. processHtml p html imageUrlMap) (loadedPlugins X') content)
       \<and> (\<forall>base. foldMarkdown (loadedPlugins X') base = left_fold processMarkdown (loadedPlugins X') base)
       \<and> (\<forall>frontMatter post.
            foldFrontMatter (loadedPlugins X') frontMatter post =
              left_fold (\<lambda>p fm. processFrontMatter p fm post) (loadedPlugins X') frontMatter)
       \<and> (\<forall>A B base. loadedPlugins X' = [A, B] \<longrightarrow>
            foldMarkdown (loadedPlugins X') base = and_then (processMarkdown A base) (processMarkdown B))
       \<and> (\<forall>h post.
            snd (convertPostToMarkdown E X' h post) =
              (let images = processImages E X' h (content_rendered post) (slug post);
                   imageUrlMap = fst (snd images);
                   content = snd (snd images);
                   featuredMediaUrl = snd (extractFeaturedImage E X' (h @ fst images) post imageUrlMap)
               in and_then (left_fold (\<lambda>p html. processHtml p html imageUrlMap) (loadedPlugins X') content)
                    (\<lambda>processedHtml.
                  and_then (turndown E (codeBlocks E X') (preserveTags X') processedHtml)
                    (\<lambda>base.
                  and_then (left_fold processMarkdown (loadedPlugins X') base)
                    (\<lambda>markdown.
                  and_then (left_fold (\<lambda>p fm. processFrontMatter p fm post) (loadedPlugins X')
                              (baseFrontMatter X' post featuredMediaUrl))
                    (\<lambda>frontMatter.
                       Inr (''---'' @ [LF] @ yaml_dump E frontMatter @ ''---'' @ [LF, LF] @ markdown)))))))"
proof -
  from init_loaded [OF assms] obtain loaded where
    l: "lookupPlugins (allPlugins E) (plugins X) = (loaded, [])"
    and x: "X' = X\<lparr>loadedPlugins := loadedPlugins X @ loaded\<rparr>"
    by blast
  have 1: "map Some (loadedPlugins X') =
           map Some (loadedPlugins X)
           @ map (\<lambda>pluginName. find (\<lambda>p. plugin_name p = pluginName) (allPlugins E)) (plugins X)"
    using lookupPlugins_found [OF l] by (simp add: x)
  have 5: "foldMarkdown (loadedPlugins X') base = and_then (processMarkdown A base) (processMarkdown B)"
    if "loadedPlugins X' = [A, B]" for A B base
    unfolding that by (simp add: and_then_def split: sum.splits)
  have 6: "snd (convertPostToMarkdown E X' h post) =
              (let images = processImages E X' h (content_rendered post) (slug post);
                   imageUrlMap = fst (snd images);
                   content = snd (snd images);
                   featuredMediaUrl = snd (extractFeaturedImage E X' (h @ fst images) post imageUrlMap)
               in and_then (left_fold (\<lambda>p html. processHtml p html imageUrlMap) (loadedPlugins X') content)
                    (\<lambda>processedHtml.
                  and_then (turndown E (codeBlocks E X') (preserveTags X') processedHtml)
                    (\<lambda>base.
                  and_then (left_fold processMarkdown (loadedPlugins X') base)
                    (\<lambda>markdown.
                  and_then (left_fold (\<lambda>p fm. processFrontMatter p fm post) (loadedPlugins X')
                              (baseFrontMatter X' post featuredMediaUrl))
                    (\<lambda>frontMatter.
                       Inr (''---'' @ [LF] @ yaml_dump E frontMatter @ ''---'' @ [LF, LF] @ markdown))))))"
    for h post
    unfolding foldHtml_left_fold [symmetric] foldMarkdown_left_fold [symmetric]
      foldFrontMatter_left_fold [symmetric]
    by (simp add: convertPostToMarkdown_def createFrontMatter_def Let_def case_prod_beta and_then_def
          split: sum.splits)
  from 1 5 6 show ?thesis
    by (simp add: foldHtml_left_fold foldMarkdown_left_fold foldFrontMatter_left_fold)
qed

lemma fixpaths_cdn_init:
  "init sample_env fixpaths_cdn_exporter =
     ([Mkdir ''blog_export'', Mkdir ''blog_export/images''], Returned loaded_fixpaths_cdn_exporter)"
  by (simp add: init_def sample_env_def fixpaths_cdn_exporter_def sample_exporter_def
        loaded_fixpaths_cdn_exporter_def YoastPlugin_def ExampleFixPathsPlugin2_def CdnPlugin_def)

theorem plugins_fold_left_to_right_witness:
  "init sample_env fixpaths_cdn_exporter =
     ([Mkdir ''blog_export'', Mkdir ''blog_export/images''], Returned loaded_fixpaths_cdn_exporter)
   \<and> plugins fixpaths_cdn_exporter = [''ExampleFixPaths'', ''Cdn'']
   \<and> map plugin_name (allPlugins sample_env) = [''Cdn'', ''ExampleFixPaths'', ''Yoast'']
   \<and> loadedPlugins loaded_fixpaths_cdn_exporter = [ExampleFixPathsPlugin2, CdnPlugin]
   \<and> map Some (loadedPlugins loaded_fixpaths_cdn_exporter) =
       [find (\<lambda>p. plugin_name p = ''ExampleFixPaths'') (allPlugins sample_env),
        find (\<lambda>p. plugin_name p = ''Cdn'') (allPlugins sample_env)]
   \<and> processMarkdown ExampleFixPathsPlugin2 ''static/images/blogs/x.png'' = Inr ''/images/blogs/x.png''
   \<and> processMarkdown CdnPlugin ''/images/blogs/x.png'' = Inr ''https://cdn.example.com/images/blogs/x.png''
   \<and> foldMarkdown (loadedPlugins loaded_fixpaths_cdn_exporter) ''static/images/blogs/x.png''
       = Inr ''https://cdn.example.com/images/blogs/x.png''
   \<and> foldMarkdown [CdnPlugin, ExampleFixPathsPlugin2] ''static/images/blogs/x.png''
       = Inr ''statichttps://cdn.example.com/images/blogs/x.png''
   \<and> snd (convertPostToMarkdown sample_env loaded_fixpaths_cdn_exporter [] paths_post) =
        Inr (''---'' @ [LF]
             @ ''title: Title'' @ [LF]
             @ ''date: '' @ [CHR 0x27] @ ''2023-01-18T13:31:19'' @ [CHR 0x27] @ [LF]
             @ ''modified: '' @ [CHR 0x27] @ ''2023-01-18T13:32:52'' @ [CHR 0x27] @ [LF]
             @ ''slug: paths'' @ [LF]
             @ ''status: publish'' @ [LF]
             @ ''categories: []'' @ [LF]
             @ ''tags: []'' @ [LF]
             @ ''author: 1'' @ [LF]
             @ ''excerpt: Excerpt'' @ [LF]
             @ ''original_url: https://example.com/paths'' @ [LF]
             @ ''featured_image: null'' @ [LF]
             @ ''---'' @ [LF, LF]
             @ ''https://cdn.example.com/images/blogs/x.png'')"
proof -
  let ?X = "loaded_fixpaths_cdn_exporter"
  let ?base = "''static/images/blogs/x.png''"
  have c: "plugins fixpaths_cdn_exporter = [''ExampleFixPaths'', ''Cdn'']"
    by (simp add: fixpaths_cdn_exporter_def sample_exporter_def)
  have n: "map plugin_name (allPlugins sample_env) = [''Cdn'', ''ExampleFixPaths'', ''Yoast'']"
    by (simp add: sample_env_def YoastPlugin_def ExampleFixPathsPlugin2_def CdnPlugin_def)
  have l: "loadedPlugins ?X = [ExampleFixPathsPlugin2, CdnPlugin]"
    by (simp add: loaded_fixpaths_cdn_exporter_def)
  have e: "loadedPlugins fixpaths_cdn_exporter = []"
    by (simp add: fixpaths_cdn_exporter_def sample_exporter_def)
  have a: "processMarkdown ExampleFixPathsPlugin2 ?base = Inr ''/images/blogs/x.png''"
    by code_simp
  have b: "processMarkdown CdnPlugin ''/images/blogs/x.png'' = Inr ''https://cdn.example.com/images/blogs/x.png''"
    by code_simp
  have other: "foldMarkdown [CdnPlugin, ExampleFixPathsPlugin2] ?base
       = Inr ''statichttps://cdn.example.com/images/blogs/x.png''"
    by code_simp
  note t = plugins_fold_left_to_right [OF fixpaths_cdn_init]
  from t have o: "map Some (loadedPlugins ?X) =
       [find (\<lambda>p. plugin_name p = ''ExampleFixPaths'') (allPlugins sample_env),
        find (\<lambda>p. plugin_name p = ''Cdn'') (allPlugins sample_env)]"
    unfolding c e by simp
  from t have "\<And>A B base. loadedPlugins ?X = [A, B] \<Longrightarrow>
        foldMarkdown (loadedPlugins ?X) base = and_then (processMarkdown A base) (processMarkdown B)"
    by blast
  from this [OF l] have f: "foldMarkdown (loadedPlugins ?X) ?base
       = Inr ''https://cdn.example.com/images/blogs/x.png''"
    by (simp add: a b)
  have i: "processImages sample_env ?X [] (content_rendered paths_post) (slug paths_post)
     = ([ConsoleLog ''Downloaded 0 images for post: paths''], [], ?base)"
    by code_simp
  have h: "left_fold (\<lambda>p html. processHtml p html []) (loadedPlugins ?X) ?base = Inr ?base"
    unfolding l by (simp add: left_fold_def and_then_def ExampleFixPathsPlugin2_def CdnPlugin_def)
  have td: "turndown sample_env (codeBlocks sample_env ?X) (preserveTags ?X) ?base = Inr ?base"
    by (simp add: sample_env_def)
  from t have fm: "left_fold processMarkdown (loadedPlugins ?X) ?base = foldMarkdown (loadedPlugins ?X) ?base"
    by simp
  have x: "extractFeaturedImage sample_env ?X ([] @ [ConsoleLog ''Downloaded 0 images for post: paths''])
             paths_post [] = ([], None)"
    by code_simp
  have y: "left_fold (\<lambda>p fm. processFrontMatter p fm paths_post) (loadedPlugins ?X)
             (baseFrontMatter ?X paths_post None)
           = Inr (AList.update ''featured_image'' YNull (baseFrontMatter ?X paths_post None))"
    unfolding l by code_simp
  have d: "yaml_dump sample_env (AList.update ''featured_image'' YNull (baseFrontMatter ?X paths_post None)) =
             ''title: Title'' @ [LF]
             @ ''date: '' @ [CHR 0x27] @ ''2023-01-18T13:31:19'' @ [CHR 0x27] @ [LF]
             @ ''modified: '' @ [CHR 0x27] @ ''2023-01-18T13:32:52'' @ [CHR 0x27] @ [LF]
             @ ''slug: paths'' @ [LF]
             @ ''status: publish'' @ [LF]
             @ ''categories: []'' @ [LF]
             @ ''tags: []'' @ [LF]
             @ ''author: 1'' @ [LF]
             @ ''excerpt: Excerpt'' @ [LF]
             @ ''original_url: https://example.com/paths'' @ [LF]
             @ ''featured_image: null'' @ [LF]"
    by code_simp
  from t have "\<And>h post. snd (convertPostToMarkdown sample_env ?X h post) =
              (let images = processImages sample_env ?X h (content_rendered post) (slug post);
                   imageUrlMap = fst (snd images);
                   content = snd (snd images);
                   featuredMediaUrl = snd (extractFeaturedImage sample_env ?X (h @ fst images) post imageUrlMap)
               in and_then (left_fold (\<lambda>p html. processHtml p html imageUrlMap) (loadedPlugins ?X) content)
                    (\<lambda>processedHtml.
                  and_then (turndown sample_env (codeBlocks sample_env ?X) (preserveTags ?X) processedHtml)
                    (\<lambda>base.
                  and_then (left_fold processMarkdown (loadedPlugins ?X) base)
                    (\<lambda>markdown.
                  and_then (left_fold (\<lambda>p fm. processFrontMatter p fm post) (loadedPlugins ?X)
                              (baseFrontMatter ?X post featuredMediaUrl))
                    (\<lambda>frontMatter.
                       Inr (''---'' @ [LF] @ yaml_dump sample_env frontMatter @ ''---'' @ [LF, LF] @ markdown))))))"
    by blast
  from this [of "[]" paths_post]
  have g: "snd (convertPostToMarkdown sample_env ?X [] paths_post) =
        Inr (''---'' @ [LF]
             @ ''title: Title'' @ [LF]
             @ ''date: '' @ [CHR 0x27] @ ''2023-01-18T13:31:19'' @ [CHR 0x27] @ [LF]
             @ ''modified: '' @ [CHR 0x27] @ ''2023-01-18T13:32:52'' @ [CHR 0x27] @ [LF]
             @ ''slug: paths'' @ [LF]
             @ ''status: publish'' @ [LF]
             @ ''categories: []'' @ [LF]
             @ ''tags: []'' @ [LF]
             @ ''author: 1'' @ [LF]
             @ ''excerpt: Excerpt'' @ [LF]
             @ ''original_url: https://example.com/paths'' @ [LF]
             @ ''featured_image: null'' @ [LF]
             @ ''---'' @ [LF, LF]
             @ ''https://cdn.example.com/images/blogs/x.png'')"
    unfolding Let_def i fst_conv snd_conv h x y
    by (simp add: td fm f d)
  from fixpaths_cdn_init c n l o a b f other g show ?thesis by (intro conjI)
qed

subsection \<open>The run\<close>

lemma convertPostToMarkdown_documents: "documents (fst (convertPostToMarkdown E X h post)) = []"
proof -
  obtain ev1 m c where p: "processImages E X h (content_rendered post) (slug post) = (ev1, m, c)"
    by (cases "processImages E X h (content_rendered post) (slug post)") auto
  have 1: "documents ev1 = []"
    using processImages_documents [of E X h "content_rendered post" "slug post"] p by simp
  have 2: "documents (fst (createFrontMatter E X (h @ ev1) post m)) = []"
    by (simp add: createFrontMatter_events extractFeaturedImage_documents)
  show ?thesis
    using 1 2 by (auto simp: convertPostToMarkdown_def p Let_def split: sum.splits prod.splits)
qed

text \<open>The loop over a list of posts followed by another.\<close>

lemma exportLoop_append:
  "exportLoop E X n_posts h (pre @ rest) converted =
     (case exportLoop E X n_posts h pre converted of
        (evs, Inl e) \<Rightarrow> (evs, Inl e)
      | (evs, Inr converted') \<Rightarrow>
          (case exportLoop E X n_posts (h @ evs) rest converted' of (evs', r) \<Rightarrow> (evs @ evs', r)))"
proof (induction pre arbitrary: h converted)
  case Nil
  then show ?case by (simp add: case_prod_beta)
next
  case (Cons p pre)
  show ?case
    by (simp add: Let_def Cons.IH split: prod.splits sum.splits option.splits)
qed

text \<open>A loop that gets through its posts has written one document for each of them.\<close>

lemma exportLoop_Inr:
  "exportLoop E X n_posts h posts converted = (evs, Inr k) \<Longrightarrow>
   map fst (documents evs) = map (documentPath E X) posts \<and> k = converted + length posts"
proof (induction posts arbitrary: h converted evs)
  case Nil
  then show ?case by simp
next
  case (Cons p posts)
  let ?started = "ConsoleLog (LF # ''Processing post: '' @ slug p)"
  obtain ev r where c: "convertPostToMarkdown E X (h @ [?started]) p = (ev, r)"
    by (cases "convertPostToMarkdown E X (h @ [?started]) p") auto
  have d: "documents ev = []"
    using convertPostToMarkdown_documents [of E X "h @ [?started]" p] c by simp
  from Cons.prems c obtain markdown where r: "r = Inr markdown"
    by (cases r) (auto simp: Let_def)
  let ?path = "path_join [baseDir X, sanitize E (slug p) @ ''.md'']"
  let ?progress = "[WriteText ?path markdown,
                    ConsoleLog (''Progress: '' @ show_nat (converted + 1) @ ''/''
                                @ show_nat n_posts @ '' posts converted'')]"
  from Cons.prems c r have w: "fs_writeFile E (h @ ?started # ev) ?path = None"
    by (auto simp: Let_def split: option.splits)
  obtain evs' r' where l: "exportLoop E X n_posts (h @ ?started # ev @ ?progress) posts (converted + 1) = (evs', r')"
    by (cases "exportLoop E X n_posts (h @ ?started # ev @ ?progress) posts (converted + 1)") auto
  from Cons.prems c r w l have e: "evs = ?started # ev @ ?progress @ evs'" and k: "r' = Inr k"
    by (simp_all add: Let_def)
  from Cons.IH [OF l [unfolded k]] show ?case
    unfolding e using d by (simp add: documents_Cons documentPath_def)
qed

text \<open>
  The loop stops at the first post whose conversion throws: its trace is that of the
  posts before it, the line that announces the post, and the events of its conversion;
  the posts behind it leave no event.
\<close>

lemma exportLoop_stops:
  assumes "exportLoop E X n_posts h pre converted = (evs, Inr k)"
      and "convertPostToMarkdown E X (h @ evs @ [ConsoleLog (LF # ''Processing post: '' @ slug post)]) post
             = (ev, Inl e)"
  shows "exportLoop E X n_posts h (pre @ post # rest) converted =
           (evs @ [ConsoleLog (LF # ''Processing post: '' @ slug post)] @ ev, Inl e)"
  using assms by (simp add: exportLoop_append Let_def)

lemma init_Returned:
  "init E X = (ev0, Returned X') \<Longrightarrow> documents ev0 = []"
  by (auto simp: init_def documents_Cons case_prod_beta split: option.splits if_splits)

lemma sample_posts: "fetchPosts sample_env = Posts ([first_post] @ second_post # [third_post])"
  by (simp add: sample_env_def first_post_def second_post_def third_post_def)

lemma sample_init:
  "init sample_env yoast_exporter =
     ([Mkdir ''blog_export'', Mkdir ''blog_export/images''], Returned loaded_yoast_exporter)"
  by (simp add: init_def sample_env_def yoast_exporter_def sample_exporter_def loaded_yoast_exporter_def
        YoastPlugin_def ExampleFixPathsPlugin2_def CdnPlugin_def)

text \<open>
  Claim C1, as the code has it. An exception in the pipeline of a post is not caught
  for that post: it leaves the loop, the \<^verbatim>\<open>catch\<close> of \<^verbatim>\<open>exportPosts\<close> logs
  \<^verbatim>\<open>Export failed:\<close> with the message of the exception, and the process exits with code
  1. The trace of the run is: what \<^verbatim>\<open>init\<close> did, the line \<^verbatim>\<open>Converting posts to Markdown...\<close>,
  the trace \<open>evs\<close> of the loop over the posts before the failing one, the line that
  announces the failing post, the events \<open>ev\<close> of its conversion, the line
  \<^verbatim>\<open>Export failed:\<close> and the exit. Nothing is done for a later post, and the documents
  written are those the loop wrote for the posts before the failing one, one for each.
\<close>

theorem export_stops_at_first_failure:
  assumes "init E X = (ev0, Returned X')"
      and "fetchPosts E = Posts (pre @ post # rest)"
      and "exportLoop E X' (length (pre @ post # rest))
             (ev0 @ [ConsoleLog (LF # ''Converting posts to Markdown...'')]) pre 0 = (evs, Inr k)"
      and "convertPostToMarkdown E X'
             (ev0 @ [ConsoleLog (LF # ''Converting posts to Markdown...'')] @ evs
              @ [ConsoleLog (LF # ''Processing post: '' @ slug post)]) post = (ev, Inl e)"
  shows "exportPosts E X =
           ev0 @ [ConsoleLog (LF # ''Converting posts to Markdown...'')] @ evs
           @ [ConsoleLog (LF # ''Processing post: '' @ slug post)] @ ev
           @ [ConsoleError (LF # ''Export failed: '' @ message e), ProcessExit 1]
       \<and> map fst (documents (exportPosts E X)) = map (documentPath E X') pre
       \<and> documents (exportPosts E X) = documents evs
       \<and> k = length pre"
proof -
  let ?h = "ev0 @ [ConsoleLog (LF # ''Converting posts to Markdown...'')]"
  have c: "convertPostToMarkdown E X' (?h @ evs @ [ConsoleLog (LF # ''Processing post: '' @ slug post)]) post
             = (ev, Inl e)"
    using assms(4) by simp
  note l = exportLoop_stops [OF assms(3) c, of rest]
  have x: "exportPosts E X =
           ev0 @ [ConsoleLog (LF # ''Converting posts to Markdown...'')] @ evs
           @ [ConsoleLog (LF # ''Processing post: '' @ slug post)] @ ev
           @ [ConsoleError (LF # ''Export failed: '' @ message e), ProcessExit 1]"
    unfolding exportPosts_def Let_def assms(1) assms(2) using l by simp
  have d: "documents ev = []"
    using convertPostToMarkdown_documents
            [of E X' "?h @ evs @ [ConsoleLog (LF # ''Processing post: '' @ slug post)]" post] c
    by simp
  note r = exportLoop_Inr [OF assms(3)]
  have w: "documents (exportPosts E X) = documents evs"
    unfolding x using d init_Returned [OF assms(1)] by (simp add: documents_Cons)
  have "map fst (documents (exportPosts E X)) = map (documentPath E X') pre"
    unfolding w using r by simp
  with x w r show ?thesis by simp
qed

theorem export_stops_at_first_failure_witness:
  "init sample_env yoast_exporter =
     ([Mkdir ''blog_export'', Mkdir ''blog_export/images''], Returned loaded_yoast_exporter)
   \<and> fetchPosts sample_env = Posts ([first_post] @ second_post # [third_post])
   \<and> snd (exportLoop sample_env loaded_yoast_exporter 3
        [Mkdir ''blog_export'', Mkdir ''blog_export/images'',
         ConsoleLog (LF # ''Converting posts to Markdown...'')] [first_post] 0) = Inr 1
   \<and> snd (convertPostToMarkdown sample_env loaded_yoast_exporter
        ([Mkdir ''blog_export'', Mkdir ''blog_export/images'',
          ConsoleLog (LF # ''Converting posts to Markdown...'')]
         @ fst (exportLoop sample_env loaded_yoast_exporter 3
                  [Mkdir ''blog_export'', Mkdir ''blog_export/images'',
                   ConsoleLog (LF # ''Converting posts to Markdown...'')] [first_post] 0)
         @ [ConsoleLog (LF # ''Processing post: second'')]) second_post)
       = Inl (Error (''Cannot read properties of undefined (reading '' @ [CHR 0x27] @ ''description''
                     @ [CHR 0x27] @ '')''))
   \<and> exportPosts sample_env yoast_exporter =
       [Mkdir ''blog_export'', Mkdir ''blog_export/images'',
        ConsoleLog (LF # ''Converting posts to Markdown...''),
        ConsoleLog (LF # ''Processing post: first''),
        ConsoleLog ''Downloaded 0 images for post: first'',
        WriteText ''blog_export/first.md''
          (''---'' @ [LF]
           @ ''title: Title'' @ [LF]
           @ ''date: '' @ [CHR 0x27] @ ''2023-01-18T13:31:19'' @ [CHR 0x27] @ [LF]
           @ ''modified: '' @ [CHR 0x27] @ ''2023-01-18T13:32:52'' @ [CHR 0x27] @ [LF]
           @ ''slug: first'' @ [LF]
           @ ''status: publish'' @ [LF]
           @ ''categories: []'' @ [LF]
           @ ''tags: []'' @ [LF]
           @ ''author: 1'' @ [LF]
           @ ''excerpt: One'' @ [LF]
           @ ''original_url: https://example.com/first'' @ [LF]
           @ ''---'' @ [LF, LF]
           @ ''one''),
        ConsoleLog ''Progress: 1/3 posts converted'',
        ConsoleLog (LF # ''Processing post: second''),
        ConsoleLog ''Downloaded 0 images for post: second'',
        ConsoleError (LF # ''Export failed: Cannot read properties of undefined (reading ''
                      @ [CHR 0x27] @ ''description'' @ [CHR 0x27] @ '')''),
        ProcessExit 1]
   \<and> map fst (documents (exportPosts sample_env yoast_exporter)) = [''blog_export/first.md'']"
proof -
  let ?h = "[Mkdir ''blog_export'', Mkdir ''blog_export/images'']"
  let ?evs = "[ConsoleLog (LF # ''Processing post: first''),
        ConsoleLog ''Downloaded 0 images for post: first'',
        WriteText ''blog_export/first.md''
          (''---'' @ [LF]
           @ ''title: Title'' @ [LF]
           @ ''date: '' @ [CHR 0x27] @ ''2023-01-18T13:31:19'' @ [CHR 0x27] @ [LF]
           @ ''modified: '' @ [CHR 0x27] @ ''2023-01-18T13:32:52'' @ [CHR 0x27] @ [LF]
           @ ''slug: first'' @ [LF]
           @ ''status: publish'' @ [LF]
           @ ''categories: []'' @ [LF]
           @ ''tags: []'' @ [LF]
           @ ''author: 1'' @ [LF]
           @ ''excerpt: One'' @ [LF]
           @ ''original_url: https://example.com/first'' @ [LF]
           @ ''---'' @ [LF, LF]
           @ ''one''),
        ConsoleLog ''Progress: 1/3 posts converted'']"
  let ?e = "Error (''Cannot read properties of undefined (reading '' @ [CHR 0x27] @ ''description''
                     @ [CHR 0x27] @ '')'')"
  have n: "length ([first_post] @ second_post # [third_post]) = 3" by simp
  have h3: "exportLoop sample_env loaded_yoast_exporter (length ([first_post] @ second_post # [third_post]))
              (?h @ [ConsoleLog (LF # ''Converting posts to Markdown...'')]) [first_post] 0 = (?evs, Inr 1)"
    unfolding n by code_simp
  have s: "slug second_post = ''second''" by code_simp
  have h4: "convertPostToMarkdown sample_env loaded_yoast_exporter
              (?h @ [ConsoleLog (LF # ''Converting posts to Markdown...'')] @ ?evs
               @ [ConsoleLog (LF # ''Processing post: '' @ slug second_post)]) second_post
            = ([ConsoleLog ''Downloaded 0 images for post: second''], Inl ?e)"
    unfolding s by code_simp
  have p: "documentPath sample_env loaded_yoast_exporter first_post = ''blog_export/first.md''"
    by code_simp
  note t = export_stops_at_first_failure [OF sample_init sample_posts h3 h4]
  have a: "snd (exportLoop sample_env loaded_yoast_exporter 3
        [Mkdir ''blog_export'', Mkdir ''blog_export/images'',
         ConsoleLog (LF # ''Converting posts to Markdown...'')] [first_post] 0) = Inr 1"
    using h3 unfolding n by simp
  have b: "snd (convertPostToMarkdown sample_env loaded_yoast_exporter
        ([Mkdir ''blog_export'', Mkdir ''blog_export/images'',
          ConsoleLog (LF # ''Converting posts to Markdown...'')]
         @ fst (exportLoop sample_env loaded_yoast_exporter 3
                  [Mkdir ''blog_export'', Mkdir ''blog_export/images'',
                   ConsoleLog (LF # ''Converting posts to Markdown...'')] [first_post] 0)
         @ [ConsoleLog (LF # ''Processing post: second'')]) second_post) = Inl ?e"
    using h3 h4 unfolding n s by simp
  from t have c: "exportPosts sample_env yoast_exporter =
       ?h @ [ConsoleLog (LF # ''Converting posts to Markdown...'')] @ ?evs
       @ [ConsoleLog (LF # ''Processing post: '' @ slug second_post)]
       @ [ConsoleLog ''Downloaded 0 images for post: second'']
       @ [ConsoleError (LF # ''Export failed: '' @ message ?e), ProcessExit 1]"
    by (rule conjunct1)
  from t have "map fst (documents (exportPosts sample_env yoast_exporter))
                  = map (documentPath sample_env loaded_yoast_exporter) [first_post]"
    by (rule conjunct2 [THEN conjunct1])
  then have d: "map fst (documents (exportPosts sample_env yoast_exporter)) = [''blog_export/first.md'']"
    by (simp add: p)
  from sample_init sample_posts a b c [unfolded s] d show ?thesis by simp
qed

text \<open>
  Claim C1 as stated fails. In a run over three posts with the plugin Yoast, where
  only the second post throws (it has no Yoast data), one document is written, not
  two; the run ends with exit code 1 and the third post is never processed.
\<close>

theorem export_continues_after_failure_counterexample:
  "fetchPosts sample_env = Posts [first_post, second_post, third_post]
   \<and> \<not> isl (snd (convertPostToMarkdown sample_env loaded_yoast_exporter [] first_post))
   \<and> isl (snd (convertPostToMarkdown sample_env loaded_yoast_exporter [] second_post))
   \<and> \<not> isl (snd (convertPostToMarkdown sample_env loaded_yoast_exporter [] third_post))
   \<and> map fst (documents (exportPosts sample_env yoast_exporter)) = [''blog_export/first.md'']
   \<and> length (documents (exportPosts sample_env yoast_exporter)) \<noteq> 2
   \<and> last (exportPosts sample_env yoast_exporter) = ProcessExit 1
   \<and> ConsoleLog (LF # ''Processing post: third'') \<notin> set (exportPosts sample_env yoast_exporter)"
  by code_simp

end
